theory Spec2Isabelle
  imports Main
begin

section \<open>JavaScript values the engine handles\<close>

text \<open>
  A JavaScript string is a sequence of UTF-16 code units; the locale configurations
  replace letters outside Latin-1 (Polish and Romanian diacritics), so a code unit is a
  natural number here and a string a list of them. \<open>ascii\<close> embeds a literal.
\<close>

type_synonym jstring = "nat list"

definition ascii :: "string \<Rightarrow> jstring" where
  "ascii s = map of_char s"

text \<open>The characters \<open>\s\<close> matches in a regular expression, which are also the ones
  \<open>String.prototype.trim\<close> strips (white space and line terminators).\<close>

definition isSpace :: "nat \<Rightarrow> bool" where
  "isSpace c \<longleftrightarrow>
     (9 \<le> c \<and> c \<le> 13) \<or> c = 32 \<or> c = 160 \<or> c = 5760 \<or> (8192 \<le> c \<and> c \<le> 8202) \<or>
     c = 8232 \<or> c = 8233 \<or> c = 8239 \<or> c = 8287 \<or> c = 12288 \<or> c = 65279"

definition isDigit :: "nat \<Rightarrow> bool" where
  "isDigit c \<longleftrightarrow> 48 \<le> c \<and> c \<le> 57"

definition isLower :: "nat \<Rightarrow> bool" where
  "isLower c \<longleftrightarrow> 97 \<le> c \<and> c \<le> 122"

definition isUpper :: "nat \<Rightarrow> bool" where
  "isUpper c \<longleftrightarrow> 65 \<le> c \<and> c \<le> 90"

definition isAlnum :: "nat \<Rightarrow> bool" where
  "isAlnum c \<longleftrightarrow> isUpper c \<or> isLower c \<or> isDigit c"

definition trim :: "jstring \<Rightarrow> jstring" where
  "trim s = rev (dropWhile isSpace (rev (dropWhile isSpace s)))"

text \<open>\<open>n.toString()\<close> and \<open>parseInt(ds, 10)\<close> on the integers.\<close>

fun decimal :: "nat \<Rightarrow> jstring" where
  "decimal n = (if n < 10 then [48 + n] else decimal (n div 10) @ [48 + n mod 10])"

declare decimal.simps [simp del]

definition numToString :: "int \<Rightarrow> jstring" where
  "numToString n = (if n < 0 then 45 # decimal (nat (- n)) else decimal (nat n))"

definition parseInt :: "jstring \<Rightarrow> nat" where
  "parseInt ds = foldl (\<lambda>acc d. 10 * acc + (d - 48)) 0 ds"

definition join :: "jstring \<Rightarrow> jstring list \<Rightarrow> jstring" where
  "join sep xs = (case xs of [] \<Rightarrow> [] | y # ys \<Rightarrow> foldl (\<lambda>acc x. acc @ sep @ x) y ys)"

text \<open>Truthiness of an optional string and of an optional number: \<open>undefined\<close>, the
  empty string and \<open>0\<close> are falsy.\<close>

definition truthyStr :: "jstring option \<Rightarrow> bool" where
  "truthyStr v = (case v of None \<Rightarrow> False | Some s \<Rightarrow> s \<noteq> [])"

definition truthyNum :: "int option \<Rightarrow> bool" where
  "truthyNum v = (case v of None \<Rightarrow> False | Some n \<Rightarrow> n \<noteq> 0)"

text \<open>\<open>x || undefined\<close> on a string.\<close>

definition orUndefined :: "jstring \<Rightarrow> jstring option" where
  "orUndefined s = (if s = [] then None else Some s)"

subsection \<open>Errors, thrown values and Results\<close>

text \<open>
  Anything can be thrown in JavaScript. \<open>js_error\<close> are the instances of \<open>Error\<close>
  (a \<open>ZodError\<close> is one, carrying its issues; a \<open>TypeError\<close> is one, carrying its
  message); \<open>js_nonerror\<close> are thrown values that are not: strings, numbers, \<open>null\<close>,
  \<open>undefined\<close>, an object with the \<open>toString\<close> of \<open>Object.prototype\<close>
  (\<open>PlainObject\<close>), an object without any \<open>toString\<close> or \<open>valueOf\<close>, as
  \<open>Object.create(null)\<close> is (\<open>NullPrototypeObject\<close>), and an object whose \<open>toString\<close>
  throws a value of its choice (\<open>ThrowingToString\<close>).

  \<open>String(v)\<close> returns a string for the first five and throws for the last two: the
  \<open>TypeError\<close> of the engine for an object that cannot be converted to a primitive,
  and whatever \<open>toString\<close> throws. \<open>String\<close> gives the string (\<open>Inr\<close>) or the value
  thrown (\<open>Inl\<close>).
\<close>

datatype zod_issue = ZodIssue (issue_path: "jstring list") (issue_message: jstring)

datatype js_error = Error jstring | ZodError "zod_issue list"

datatype js_nonerror =
    StringVal jstring | NumberVal int | PlainObject | NullVal | UndefinedVal
  | NullPrototypeObject | ThrowingToString js_thrown
and js_thrown = ErrorVal js_error | OtherVal js_nonerror

definition cannotConvert :: js_error where
  "cannotConvert = Error (ascii ''Cannot convert object to primitive value'')"

fun String :: "js_nonerror \<Rightarrow> js_thrown + jstring" where
  "String (StringVal s) = Inr s"
| "String (NumberVal n) = Inr (numToString n)"
| "String PlainObject = Inr (ascii ''[object Object]'')"
| "String NullVal = Inr (ascii ''null'')"
| "String UndefinedVal = Inr (ascii ''undefined'')"
| "String NullPrototypeObject = Inl (ErrorVal cannotConvert)"
| "String (ThrowingToString thrown) = Inl thrown"

text \<open>\<open>error instanceof Error ? error : new Error(String(error))\<close>, the normalisation
  used in the \<open>catch\<close> blocks of \<open>retryOperation\<close>, \<open>scrape\<close>, \<open>getListingDetails\<close>
  and \<open>BaseTool.execute\<close>. It is an expression that can throw, since \<open>String(error)\<close>
  can: \<open>Inr\<close> is the \<open>Error\<close> it evaluates to, \<open>Inl\<close> the value it throws, which then
  leaves the \<open>catch\<close> block it is evaluated in.\<close>

fun toError :: "js_thrown \<Rightarrow> js_thrown + js_error" where
  "toError (ErrorVal e) = Inr e"
| "toError (OtherVal v) = (case String v of Inl thrown \<Rightarrow> Inl thrown | Inr message \<Rightarrow> Inr (Error message))"

datatype 'a Result = Success 'a | Failure js_error

definition createResult :: "'a \<Rightarrow> 'a Result" where
  "createResult data = Success data"

text \<open>\<open>createError\<close> takes an \<open>Error\<close> or a string.\<close>

definition createError :: "js_error + jstring \<Rightarrow> 'a Result" where
  "createError error = Failure (case error of Inl e \<Rightarrow> e | Inr msg \<Rightarrow> Error msg)"

subsection \<open>Computations that may throw and that change a state\<close>

text \<open>
  An \<open>async\<close> function over the state \<open>'s\<close>: it either returns a value or throws one,
  and leaves a new state. \<open>bind\<close> is sequencing with \<open>await\<close> (a throw skips the
  rest), \<open>try_catch\<close> is \<open>try { ... } catch (error) { ... }\<close>.
\<close>

datatype 'a outcome = Returned 'a | Threw js_thrown

type_synonym ('a, 's) io = "'s \<Rightarrow> 'a outcome \<times> 's"

definition ret :: "'a \<Rightarrow> ('a, 's) io" where
  "ret v = (\<lambda>s. (Returned v, s))"

definition throw :: "js_thrown \<Rightarrow> ('a, 's) io" where
  "throw e = (\<lambda>s. (Threw e, s))"

definition bind :: "('a, 's) io \<Rightarrow> ('a \<Rightarrow> ('b, 's) io) \<Rightarrow> ('b, 's) io" where
  "bind m f = (\<lambda>s. case m s of (Returned v, s') \<Rightarrow> f v s' | (Threw e, s') \<Rightarrow> (Threw e, s'))"

definition try_catch :: "('a, 's) io \<Rightarrow> (js_thrown \<Rightarrow> ('a, 's) io) \<Rightarrow> ('a, 's) io" where
  "try_catch m h = (\<lambda>s. case m s of (Returned v, s') \<Rightarrow> (Returned v, s') | (Threw e, s') \<Rightarrow> h e s')"

text \<open>An optional \<open>AbortSignal\<close>: whether it is aborted is read off the state at the
  moment of the check, so a token signalled in the middle of an operation is covered.\<close>

type_synonym 's signal = "('s \<Rightarrow> bool) option"

definition aborted :: "'s signal \<Rightarrow> 's \<Rightarrow> bool" where
  "aborted signal s = (case signal of None \<Rightarrow> False | Some a \<Rightarrow> a s)"

section \<open>Retry coordinator: \<open>PlaywrightScraper.retryOperation\<close>\<close>

text \<open>
  The \<open>for\<close> loop over \<open>attempt\<close>, with the delays it waits for collected in order
  (\<open>slept\<close>). \<open>lastError\<close> is unassigned until an attempt has failed; the \<open>throw\<close>
  after the loop then throws \<open>undefined\<close>. The assignment to \<open>lastError\<close> is the first
  statement of the \<open>catch\<close> block: when the normalisation throws there, the value it
  throws leaves \<open>retryOperation\<close> at once, before the test of \<open>attempt\<close> and before
  any delay.
\<close>

function retryLoop ::
  "('a, 's) io \<Rightarrow> nat \<Rightarrow> nat \<Rightarrow> js_error option \<Rightarrow> nat list \<Rightarrow> 's \<Rightarrow> ('a outcome \<times> nat list) \<times> 's" where
  "retryLoop operation maxRetries attempt lastError slept s =
     (if attempt \<le> maxRetries then
        (case operation s of
           (Returned v, s') \<Rightarrow> ((Returned v, slept), s')
         | (Threw error, s') \<Rightarrow>
             (case toError error of
                Inl thrown \<Rightarrow> ((Threw thrown, slept), s')
              | Inr lastError' \<Rightarrow>
                  (if attempt = maxRetries then ((Threw (ErrorVal lastError'), slept), s')
                   else retryLoop operation maxRetries (attempt + 1) (Some lastError')
                          (slept @ [min (1000 * 2 ^ (attempt - 1)) 10000]) s')))
      else
        ((case lastError of
            None \<Rightarrow> Threw (OtherVal UndefinedVal)
          | Some e \<Rightarrow> Threw (ErrorVal e), slept), s))"
  by pat_completeness auto
termination
  by (relation "measure (\<lambda>(operation, maxRetries, attempt, lastError, slept, s). Suc maxRetries - attempt)") auto

declare retryLoop.simps [simp del]

definition retryOperation :: "('a, 's) io \<Rightarrow> nat \<Rightarrow> 's \<Rightarrow> ('a outcome \<times> nat list) \<times> 's" where
  "retryOperation operation maxRetries s = retryLoop operation maxRetries 1 None [] s"

text \<open>The state after the first \<open>k\<close> invocations of an operation started in \<open>s\<close>, the
  outcome of invocation \<open>k\<close> (counted from 1), and an operation instrumented to count
  its invocations: the vocabulary of the retry contract.\<close>

primrec stateAfter :: "('a, 's) io \<Rightarrow> 's \<Rightarrow> nat \<Rightarrow> 's" where
  "stateAfter operation s 0 = s"
| "stateAfter operation s (Suc k) = snd (operation (stateAfter operation s k))"

definition outcomeOf :: "('a, 's) io \<Rightarrow> 's \<Rightarrow> nat \<Rightarrow> 'a outcome" where
  "outcomeOf operation s k = fst (operation (stateAfter operation s (k - 1)))"

definition counted :: "('a, 's) io \<Rightarrow> ('a, 's \<times> nat) io" where
  "counted operation = (\<lambda>(s, n). case operation s of (r, s') \<Rightarrow> (r, (s', Suc n)))"

text \<open>An attempt threw a value that the \<open>catch\<close> block records in \<open>lastError\<close>: an
  \<open>Error\<close>, or a value that \<open>String\<close> converts.\<close>

definition threwConvertible :: "'a outcome \<Rightarrow> bool" where
  "threwConvertible r = (case r of Returned v \<Rightarrow> False
               | Threw e \<Rightarrow> (case toError e of Inl thrown \<Rightarrow> False | Inr lastError \<Rightarrow> True))"

definition backoff :: "nat \<Rightarrow> nat" where
  "backoff k = min (1000 * 2 ^ (k - 1)) 10000"

section \<open>Execution framework: \<open>BaseTool.execute\<close>\<close>

text \<open>
  \<open>inputSchema.parse\<close> returns the validated arguments or throws a \<open>ZodError\<close> with its
  issues; \<open>executeImpl\<close> is the tool's implementation. Both are the abstract members of
  \<open>BaseTool\<close>, so parameters here.
\<close>

definition formatIssue :: "zod_issue \<Rightarrow> jstring" where
  "formatIssue err = join (ascii ''.'') (issue_path err) @ ascii '': '' @ issue_message err"

definition execute ::
  "('raw \<Rightarrow> zod_issue list + 'args) \<Rightarrow> ('args \<Rightarrow> 's signal \<Rightarrow> ('r, 's) io) \<Rightarrow>
   'raw \<Rightarrow> 's signal \<Rightarrow> ('r Result, 's) io" where
  "execute inputSchema executeImpl args signal =
     try_catch
       (\<lambda>s. if aborted signal s then throw (ErrorVal (Error (ascii ''Operation cancelled''))) s
            else (case inputSchema args of
                    Inl issues \<Rightarrow> throw (ErrorVal (ZodError issues)) s
                  | Inr validatedArgs \<Rightarrow>
                      bind (executeImpl validatedArgs signal) (\<lambda>result. ret (createResult result)) s))
       (\<lambda>error. case error of
            ErrorVal (ZodError errors) \<Rightarrow>
              ret (createError (Inr (ascii ''Validation error: '' @
                     join (ascii '', '') (map formatIssue errors))))
          | _ \<Rightarrow> (case toError error of
                    Inl thrown \<Rightarrow> throw thrown
                  | Inr e \<Rightarrow> ret (createError (Inl e))))"

section \<open>The platform the engine runs on\<close>

text \<open>
  What the code calls but does not define: \<open>String.prototype.toLowerCase\<close> (Unicode
  case mapping), the \<open>URL\<close> class (parsing a reference against a base, which throws a
  \<open>TypeError\<close> on an unparseable one, and serialising), the issues zod reports, the
  browser (what a navigation loads, given the navigations made so far) and the clock
  (the successive readings of \<open>Date.now()\<close>). They are fields of \<open>runtime\<close>; the
  model is a function of them. A parsed \<open>URL\<close> shows its query as the list of
  name-value pairs behind \<open>url.searchParams\<close>.
\<close>

record URL =
  beforeQuery :: jstring
  searchParams :: "(jstring \<times> jstring) list"
  hash :: jstring

text \<open>\<open>URLSearchParams.set\<close>: the first pair of that name takes the value and the other
  pairs of that name go; without such a pair, one is appended.\<close>

fun setFirst :: "jstring \<Rightarrow> jstring \<Rightarrow> (jstring \<times> jstring) list \<Rightarrow> (jstring \<times> jstring) list" where
  "setFirst name v [] = []"
| "setFirst name v (p # ps) =
     (if fst p = name then (name, v) # filter (\<lambda>q. fst q \<noteq> name) ps else p # setFirst name v ps)"

definition searchParams_set :: "jstring \<Rightarrow> jstring \<Rightarrow> URL \<Rightarrow> URL" where
  "searchParams_set name v url =
     url\<lparr>searchParams :=
       (if name \<in> set (map fst (searchParams url)) then setFirst name v (searchParams url)
        else searchParams url @ [(name, v)])\<rparr>"

definition hasParam :: "jstring \<Rightarrow> URL \<Rightarrow> bool" where
  "hasParam name url \<longleftrightarrow> name \<in> set (map fst (searchParams url))"

text \<open>What a page shows to the selectors of a domain configuration. A text field is the
  \<open>textContent\<close> of the first element its selector matches, \<open>None\<close> when nothing
  matches (\<open>$eval\<close> rejects then). A result card lists the \<open>href\<close> of its \<open>a[href]\<close>
  elements in document order and the \<open>src\<close> and \<open>data-src\<close> of its first image.\<close>

record card =
  card_title :: "jstring option"
  card_price :: "jstring option"
  card_location :: "jstring option"
  card_image :: "(jstring option \<times> jstring option) option"
  card_links :: "jstring list"

record page_dom =
  cards :: "card list"
  totalCount_text :: "jstring option"
  nextPage_present :: bool
  detail_title :: "jstring option"
  detail_price :: "jstring option"
  detail_description :: "jstring option"
  detail_location :: "jstring option"
  seller_name_text :: "jstring option"
  seller_verified_present :: bool

record runtime =
  toLowerCase :: "jstring \<Rightarrow> jstring"
  newURL :: "jstring \<Rightarrow> jstring \<Rightarrow> js_error + URL"
  urlToString :: "URL \<Rightarrow> jstring"
  web :: "jstring list \<Rightarrow> jstring \<Rightarrow> js_error + page_dom"
  clock :: "nat \<Rightarrow> nat"

section \<open>Domain configuration registry\<close>

datatype OlxDomain = olx_pt | olx_pl | olx_bg | olx_ro | olx_ua

datatype SortBy = relevance | date | price_asc | price_desc

record DomainUrlPatterns =
  searchPath :: "jstring option \<Rightarrow> jstring option \<Rightarrow> jstring"
  priceParams_min :: jstring
  priceParams_max :: jstring
  sortParams :: "SortBy \<Rightarrow> jstring option"
  categoryParam :: jstring
  pageParam :: jstring

record DomainConfig =
  cfg_domain :: OlxDomain
  baseUrl :: jstring
  currency :: jstring
  language :: jstring
  urlPatterns :: DomainUrlPatterns

subsection \<open>The regular-expression replacements of the slug builders\<close>

text \<open>\<open>replace(/\s+/g, '-')\<close> and \<open>replace(/-+/g, '-')\<close>: every maximal run of characters
  of a class becomes one character.\<close>

function replaceRuns :: "(nat \<Rightarrow> bool) \<Rightarrow> nat \<Rightarrow> jstring \<Rightarrow> jstring" where
  "replaceRuns p r [] = []"
| "replaceRuns p r (c # cs) =
     (if p c then r # replaceRuns p r (dropWhile p cs) else c # replaceRuns p r cs)"
  by pat_completeness auto
termination
  by (relation "measure (\<lambda>(p, r, cs). length cs)")
     (auto simp: length_dropWhile_le less_Suc_eq_le)

text \<open>\<open>replace(/x/g, 'y')\<close> for single characters.\<close>

definition replaceChar :: "nat \<Rightarrow> nat \<Rightarrow> jstring \<Rightarrow> jstring" where
  "replaceChar x y s = map (\<lambda>c. if c = x then y else c) s"

text \<open>\<open>replace(/[^a-z0-9\s-]/g, '')\<close>.\<close>

definition stripOther :: "jstring \<Rightarrow> jstring" where
  "stripOther s = filter (\<lambda>c. isLower c \<or> isDigit c \<or> isSpace c \<or> c = 45) s"

text \<open>\<open>replace(/^-|-$/g, '')\<close>: one hyphen off the front, then one off the end.\<close>

definition trimHyphen :: "jstring \<Rightarrow> jstring" where
  "trimHyphen s =
     (let s1 = (case s of [] \<Rightarrow> [] | c # cs \<Rightarrow> if c = 45 then cs else s)
      in if s1 \<noteq> [] \<and> last s1 = 45 then butlast s1 else s1)"

text \<open>The string behind a truthy optional string.\<close>

definition strOf :: "jstring option \<Rightarrow> jstring" where
  "strOf v = (case v of None \<Rightarrow> [] | Some s \<Rightarrow> s)"

subsection \<open>\<open>urlPatterns.searchPath\<close> of the five configurations\<close>

text \<open>Each builder is written as in \<open>domain-config.ts\<close>: the query slug is computed by
  one pipeline in the branch with a location and by a second copy of it in the branch
  without. Code units: 45 is the hyphen; 261, 263, 281, 322, 324, 243, 347, 378, 380 are
  the Polish letters a-ogonek, c-acute, e-ogonek, l-stroke, n-acute, o-acute, s-acute,
  z-acute, z-dot; 259, 226, 238, 537, 539 the Romanian a-breve, a-circumflex,
  i-circumflex, s-comma, t-comma.\<close>

definition searchPath_pt :: "(jstring \<Rightarrow> jstring) \<Rightarrow> jstring option \<Rightarrow> jstring option \<Rightarrow> jstring" where
  "searchPath_pt lower location query =
     (if truthyStr location then
        (let locationSlug = replaceRuns isSpace 45 (lower (strOf location))
         in if truthyStr query then
              (let querySlug =
                 trimHyphen (replaceRuns (\<lambda>c. c = 45) 45 (replaceRuns isSpace 45
                   (stripOther (lower (strOf query)))))
               in ascii ''/'' @ locationSlug @ ascii ''/q-'' @ querySlug @ ascii ''/'')
            else ascii ''/'' @ locationSlug @ ascii ''/'')
      else
        (if truthyStr query then
           (let querySlug =
              trimHyphen (replaceRuns (\<lambda>c. c = 45) 45 (replaceRuns isSpace 45
                (stripOther (lower (strOf query)))))
            in ascii ''/ads/'' @ ascii ''q-'' @ querySlug @ ascii ''/'')
         else ascii ''/ads/''))"

definition searchPath_pl :: "(jstring \<Rightarrow> jstring) \<Rightarrow> jstring option \<Rightarrow> jstring option \<Rightarrow> jstring" where
  "searchPath_pl lower location query =
     (if truthyStr location then
        (let locationSlug =
           replaceChar 380 122 (replaceChar 378 122 (replaceChar 347 115 (replaceChar 243 111
             (replaceChar 324 110 (replaceChar 322 108 (replaceChar 281 101 (replaceChar 263 99
               (replaceChar 261 97 (replaceRuns isSpace 45 (lower (strOf location)))))))))))
         in if truthyStr query then
              (let querySlug =
                 trimHyphen (replaceRuns (\<lambda>c. c = 45) 45 (replaceRuns isSpace 45 (stripOther
                   (replaceChar 380 122 (replaceChar 378 122 (replaceChar 347 115 (replaceChar 243 111
                     (replaceChar 324 110 (replaceChar 322 108 (replaceChar 281 101 (replaceChar 263 99
                       (replaceChar 261 97 (lower (strOf query)))))))))))))) 
               in ascii ''/'' @ locationSlug @ ascii ''/q-'' @ querySlug @ ascii ''/'')
            else ascii ''/'' @ locationSlug @ ascii ''/'')
      else
        (if truthyStr query then
           (let querySlug =
              trimHyphen (replaceRuns (\<lambda>c. c = 45) 45 (replaceRuns isSpace 45 (stripOther
                (replaceChar 380 122 (replaceChar 378 122 (replaceChar 347 115 (replaceChar 243 111
                  (replaceChar 324 110 (replaceChar 322 108 (replaceChar 281 101 (replaceChar 263 99
                    (replaceChar 261 97 (lower (strOf query))))))))))))))
            in ascii ''/oferty/'' @ ascii ''q-'' @ querySlug @ ascii ''/'')
         else ascii ''/oferty/''))"

definition searchPath_bg :: "(jstring \<Rightarrow> jstring) \<Rightarrow> jstring option \<Rightarrow> jstring option \<Rightarrow> jstring" where
  "searchPath_bg lower location query =
     (if truthyStr location then
        (let locationSlug = replaceRuns isSpace 45 (lower (strOf location))
         in if truthyStr query then
              (let querySlug =
                 trimHyphen (replaceRuns (\<lambda>c. c = 45) 45 (replaceRuns isSpace 45
                   (stripOther (lower (strOf query)))))
               in ascii ''/'' @ locationSlug @ ascii ''/q-'' @ querySlug @ ascii ''/'')
            else ascii ''/'' @ locationSlug @ ascii ''/'')
      else
        (if truthyStr query then
           (let querySlug =
              trimHyphen (replaceRuns (\<lambda>c. c = 45) 45 (replaceRuns isSpace 45
                (stripOther (lower (strOf query)))))
            in ascii ''/ads/'' @ ascii ''q-'' @ querySlug @ ascii ''/'')
         else ascii ''/ads/''))"

definition searchPath_ro :: "(jstring \<Rightarrow> jstring) \<Rightarrow> jstring option \<Rightarrow> jstring option \<Rightarrow> jstring" where
  "searchPath_ro lower location query =
     (if truthyStr location then
        (let locationSlug =
           replaceChar 539 116 (replaceChar 537 115 (replaceChar 238 105 (replaceChar 226 97
             (replaceChar 259 97 (replaceRuns isSpace 45 (lower (strOf location)))))))
         in if truthyStr query then
              (let querySlug =
                 trimHyphen (replaceRuns (\<lambda>c. c = 45) 45 (replaceRuns isSpace 45
                   (replaceChar 539 116 (replaceChar 537 115 (replaceChar 238 105 (replaceChar 226 97
                     (replaceChar 259 97 (stripOther (lower (strOf query))))))))))
               in ascii ''/'' @ locationSlug @ ascii ''/q-'' @ querySlug @ ascii ''/'')
            else ascii ''/'' @ locationSlug @ ascii ''/'')
      else
        (if truthyStr query then
           (let querySlug =
              trimHyphen (replaceRuns (\<lambda>c. c = 45) 45 (replaceRuns isSpace 45
                (replaceChar 539 116 (replaceChar 537 115 (replaceChar 238 105 (replaceChar 226 97
                  (replaceChar 259 97 (stripOther (lower (strOf query))))))))))
            in ascii ''/ads/'' @ ascii ''q-'' @ querySlug @ ascii ''/'')
         else ascii ''/ads/''))"

definition searchPath_ua :: "(jstring \<Rightarrow> jstring) \<Rightarrow> jstring option \<Rightarrow> jstring option \<Rightarrow> jstring" where
  "searchPath_ua lower location query =
     (if truthyStr location then
        (let locationSlug = replaceRuns isSpace 45 (lower (strOf location))
         in if truthyStr query then
              (let querySlug =
                 trimHyphen (replaceRuns (\<lambda>c. c = 45) 45 (replaceRuns isSpace 45
                   (stripOther (lower (strOf query)))))
               in ascii ''/'' @ locationSlug @ ascii ''/q-'' @ querySlug @ ascii ''/'')
            else ascii ''/'' @ locationSlug @ ascii ''/'')
      else
        (if truthyStr query then
           (let querySlug =
              trimHyphen (replaceRuns (\<lambda>c. c = 45) 45 (replaceRuns isSpace 45
                (stripOther (lower (strOf query)))))
            in ascii ''/ads/'' @ ascii ''q-'' @ querySlug @ ascii ''/'')
         else ascii ''/ads/''))"

text \<open>The price, sort, category and page parameters are the same in the five
  configurations.\<close>

definition olxSortParams :: "SortBy \<Rightarrow> jstring option" where
  "olxSortParams sb =
     (case sb of
        relevance \<Rightarrow> None
      | date \<Rightarrow> Some (ascii ''created_at:desc'')
      | price_asc \<Rightarrow> Some (ascii ''filter_float_price:asc'')
      | price_desc \<Rightarrow> Some (ascii ''filter_float_price:desc''))"

definition olxUrlPatterns ::
  "(jstring option \<Rightarrow> jstring option \<Rightarrow> jstring) \<Rightarrow> DomainUrlPatterns" where
  "olxUrlPatterns sp =
     \<lparr>searchPath = sp,
      priceParams_min = ascii ''search[filter_float_price:from]'',
      priceParams_max = ascii ''search[filter_float_price:to]'',
      sortParams = olxSortParams,
      categoryParam = ascii ''c'',
      pageParam = ascii ''page''\<rparr>"

definition OLX_DOMAIN_CONFIGS :: "runtime \<Rightarrow> OlxDomain \<Rightarrow> DomainConfig" where
  "OLX_DOMAIN_CONFIGS rt d =
     (case d of
        olx_pt \<Rightarrow> \<lparr>cfg_domain = olx_pt, baseUrl = ascii ''https://www.olx.pt'',
                   currency = ascii ''EUR'', language = ascii ''pt'',
                   urlPatterns = olxUrlPatterns (searchPath_pt (toLowerCase rt))\<rparr>
      | olx_pl \<Rightarrow> \<lparr>cfg_domain = olx_pl, baseUrl = ascii ''https://www.olx.pl'',
                   currency = ascii ''PLN'', language = ascii ''pl'',
                   urlPatterns = olxUrlPatterns (searchPath_pl (toLowerCase rt))\<rparr>
      | olx_bg \<Rightarrow> \<lparr>cfg_domain = olx_bg, baseUrl = ascii ''https://www.olx.bg'',
                   currency = ascii ''BGN'', language = ascii ''bg'',
                   urlPatterns = olxUrlPatterns (searchPath_bg (toLowerCase rt))\<rparr>
      | olx_ro \<Rightarrow> \<lparr>cfg_domain = olx_ro, baseUrl = ascii ''https://www.olx.ro'',
                   currency = ascii ''RON'', language = ascii ''ro'',
                   urlPatterns = olxUrlPatterns (searchPath_ro (toLowerCase rt))\<rparr>
      | olx_ua \<Rightarrow> \<lparr>cfg_domain = olx_ua, baseUrl = ascii ''https://www.olx.ua'',
                   currency = ascii ''UAH'', language = ascii ''uk'',
                   urlPatterns = olxUrlPatterns (searchPath_ua (toLowerCase rt))\<rparr>)"

definition getDomainConfig :: "runtime \<Rightarrow> OlxDomain \<Rightarrow> DomainConfig" where
  "getDomainConfig rt d = OLX_DOMAIN_CONFIGS rt d"

text \<open>The fixed parts of a search path, to state where the query slug sits: the flat
  listing root of a domain, and the location slug its builder computes.\<close>

definition listingRoot :: "OlxDomain \<Rightarrow> jstring" where
  "listingRoot d = (if d = olx_pl then ascii ''/oferty/'' else ascii ''/ads/'')"

definition locationSlugOf :: "(jstring \<Rightarrow> jstring) \<Rightarrow> OlxDomain \<Rightarrow> jstring \<Rightarrow> jstring" where
  "locationSlugOf lower d loc =
     (case d of
        olx_pl \<Rightarrow>
          replaceChar 380 122 (replaceChar 378 122 (replaceChar 347 115 (replaceChar 243 111
            (replaceChar 324 110 (replaceChar 322 108 (replaceChar 281 101 (replaceChar 263 99
              (replaceChar 261 97 (replaceRuns isSpace 45 (lower loc))))))))))
      | olx_ro \<Rightarrow>
          replaceChar 539 116 (replaceChar 537 115 (replaceChar 238 105 (replaceChar 226 97
            (replaceChar 259 97 (replaceRuns isSpace 45 (lower loc))))))
      | _ \<Rightarrow> replaceRuns isSpace 45 (lower loc))"

section \<open>Input schemas and search filters\<close>

record SearchFilters =
  domain :: OlxDomain
  query :: "jstring option"
  category :: "jstring option"
  location :: "jstring option"
  minPrice :: "int option"
  maxPrice :: "int option"
  page :: "int option"
  limit :: "int option"
  sortBy :: "SortBy option"

text \<open>The arguments of \<open>searchListings\<close> as they arrive (\<open>SearchListingsInput\<close>) and as
  \<open>SearchListingsArgsSchema.parse\<close> returns them, with the defaults filled in
  (\<open>SearchListingsArgs\<close>). Numbers are modelled by their integer values.\<close>

record SearchListingsInput =
  in_domain :: jstring
  in_query :: "jstring option"
  in_category :: "jstring option"
  in_location :: "jstring option"
  in_minPrice :: "int option"
  in_maxPrice :: "int option"
  in_page :: "int option"
  in_limit :: "int option"
  in_sortBy :: "jstring option"

record SearchListingsArgs =
  arg_domain :: OlxDomain
  arg_query :: "jstring option"
  arg_category :: "jstring option"
  arg_location :: "jstring option"
  arg_minPrice :: "int option"
  arg_maxPrice :: "int option"
  arg_page :: int
  arg_limit :: int
  arg_sortBy :: SortBy

definition parseDomain :: "jstring \<Rightarrow> OlxDomain option" where
  "parseDomain d =
     (if d = ascii ''olx.pt'' then Some olx_pt
      else if d = ascii ''olx.pl'' then Some olx_pl
      else if d = ascii ''olx.bg'' then Some olx_bg
      else if d = ascii ''olx.ro'' then Some olx_ro
      else if d = ascii ''olx.ua'' then Some olx_ua
      else None)"

definition parseSortBy :: "jstring \<Rightarrow> SortBy option" where
  "parseSortBy v =
     (if v = ascii ''relevance'' then Some relevance
      else if v = ascii ''date'' then Some date
      else if v = ascii ''price-asc'' then Some price_asc
      else if v = ascii ''price-desc'' then Some price_desc
      else None)"

definition optAll :: "('a \<Rightarrow> bool) \<Rightarrow> 'a option \<Rightarrow> bool" where
  "optAll p v = (case v of None \<Rightarrow> True | Some x \<Rightarrow> p x)"

definition numOf :: "int option \<Rightarrow> int" where
  "numOf v = (case v of None \<Rightarrow> 0 | Some n \<Rightarrow> n)"

text \<open>The inputs \<open>SearchListingsArgsSchema\<close> admits: the field checks of the object, then
  its two refinements.\<close>

definition SearchListingsArgsSchema_admits :: "SearchListingsInput \<Rightarrow> bool" where
  "SearchListingsArgsSchema_admits raw \<longleftrightarrow>
     parseDomain (in_domain raw) \<noteq> None \<and>
     optAll (\<lambda>q. 1 \<le> length q \<and> length q \<le> 100) (in_query raw) \<and>
     optAll (\<lambda>n. 0 \<le> n) (in_minPrice raw) \<and>
     optAll (\<lambda>n. 0 \<le> n) (in_maxPrice raw) \<and>
     optAll (\<lambda>n. 1 \<le> n) (in_page raw) \<and>
     optAll (\<lambda>n. 1 \<le> n \<and> n \<le> 50) (in_limit raw) \<and>
     optAll (\<lambda>v. parseSortBy v \<noteq> None) (in_sortBy raw) \<and>
     (\<not> truthyNum (in_maxPrice raw) \<or> \<not> truthyNum (in_minPrice raw) \<or>
        numOf (in_minPrice raw) \<le> numOf (in_maxPrice raw)) \<and>
     (truthyStr (in_query raw) \<or> truthyStr (in_category raw) \<or> truthyStr (in_location raw))"

definition SearchListingsArgsSchema_output :: "SearchListingsInput \<Rightarrow> SearchListingsArgs" where
  "SearchListingsArgsSchema_output raw =
     \<lparr>arg_domain = (case parseDomain (in_domain raw) of None \<Rightarrow> olx_pt | Some d \<Rightarrow> d),
      arg_query = in_query raw,
      arg_category = in_category raw,
      arg_location = in_location raw,
      arg_minPrice = in_minPrice raw,
      arg_maxPrice = in_maxPrice raw,
      arg_page = (case in_page raw of None \<Rightarrow> 1 | Some n \<Rightarrow> n),
      arg_limit = (case in_limit raw of None \<Rightarrow> 20 | Some n \<Rightarrow> n),
      arg_sortBy = (case in_sortBy raw of None \<Rightarrow> relevance
                    | Some v \<Rightarrow> (case parseSortBy v of None \<Rightarrow> relevance | Some sb \<Rightarrow> sb))\<rparr>"

text \<open>\<open>parse\<close>: the validated arguments, or the issues zod reports for a rejected input
  (\<open>zodIssues\<close>, the library's).\<close>

definition SearchListingsArgsSchema ::
  "(SearchListingsInput \<Rightarrow> zod_issue list) \<Rightarrow> SearchListingsInput \<Rightarrow> zod_issue list + SearchListingsArgs" where
  "SearchListingsArgsSchema zodIssues raw =
     (if SearchListingsArgsSchema_admits raw then Inr (SearchListingsArgsSchema_output raw)
      else Inl (zodIssues raw))"

record GetListingDetailsInput =
  gin_domain :: jstring
  gin_listingId :: jstring
  gin_includeImages :: "bool option"
  gin_includeSellerInfo :: "bool option"

record GetListingDetailsArgs =
  garg_domain :: OlxDomain
  garg_listingId :: jstring
  garg_includeImages :: bool
  garg_includeSellerInfo :: bool

definition GetListingDetailsArgsSchema_admits :: "GetListingDetailsInput \<Rightarrow> bool" where
  "GetListingDetailsArgsSchema_admits raw \<longleftrightarrow>
     parseDomain (gin_domain raw) \<noteq> None \<and> 1 \<le> length (gin_listingId raw)"

definition GetListingDetailsArgsSchema ::
  "(GetListingDetailsInput \<Rightarrow> zod_issue list) \<Rightarrow> GetListingDetailsInput \<Rightarrow>
   zod_issue list + GetListingDetailsArgs" where
  "GetListingDetailsArgsSchema zodIssues raw =
     (if GetListingDetailsArgsSchema_admits raw then
        Inr \<lparr>garg_domain = (case parseDomain (gin_domain raw) of None \<Rightarrow> olx_pt | Some d \<Rightarrow> d),
             garg_listingId = gin_listingId raw,
             garg_includeImages = (case gin_includeImages raw of None \<Rightarrow> False | Some b \<Rightarrow> b),
             garg_includeSellerInfo = (case gin_includeSellerInfo raw of None \<Rightarrow> True | Some b \<Rightarrow> b)\<rparr>
      else Inl (zodIssues raw))"

section \<open>Base scraper\<close>

subsection \<open>\<open>BaseOlxScraper.buildSearchUrl\<close>\<close>

text \<open>\<open>buildSearchUrl_object\<close> is the \<open>URL\<close> object when \<open>buildSearchUrl\<close> returns (or the
  \<open>TypeError\<close> of \<open>new URL\<close>); \<open>buildSearchUrl\<close> is its \<open>toString()\<close>.\<close>

definition buildSearchUrl_object :: "runtime \<Rightarrow> DomainConfig \<Rightarrow> SearchFilters \<Rightarrow> js_error + URL" where
  "buildSearchUrl_object rt domainConfig filters =
     (let path = searchPath (urlPatterns domainConfig) (location filters) (query filters)
      in case newURL rt path (baseUrl domainConfig) of
           Inl e \<Rightarrow> Inl e
         | Inr url0 \<Rightarrow>
             (let url1 = (if truthyStr (category filters)
                          then searchParams_set (categoryParam (urlPatterns domainConfig))
                                 (strOf (category filters)) url0
                          else url0);
                  url2 = (if truthyNum (minPrice filters)
                          then searchParams_set (priceParams_min (urlPatterns domainConfig))
                                 (numToString (numOf (minPrice filters))) url1
                          else url1);
                  url3 = (if truthyNum (maxPrice filters)
                          then searchParams_set (priceParams_max (urlPatterns domainConfig))
                                 (numToString (numOf (maxPrice filters))) url2
                          else url2);
                  url4 = (case sortBy filters of
                            None \<Rightarrow> url3
                          | Some sb \<Rightarrow>
                              if sb \<noteq> relevance then
                                (case sortParams (urlPatterns domainConfig) sb of
                                   None \<Rightarrow> url3
                                 | Some sortValue \<Rightarrow>
                                     if sortValue \<noteq> []
                                     then searchParams_set (ascii ''search[order]'') sortValue url3
                                     else url3)
                              else url3);
                  url5 = (if truthyNum (page filters) \<and> numOf (page filters) > 1
                          then searchParams_set (pageParam (urlPatterns domainConfig))
                                 (numToString (numOf (page filters))) url4
                          else url4)
              in Inr url5))"

definition buildSearchUrl :: "runtime \<Rightarrow> DomainConfig \<Rightarrow> SearchFilters \<Rightarrow> js_error + jstring" where
  "buildSearchUrl rt domainConfig filters =
     (case buildSearchUrl_object rt domainConfig filters of
        Inl e \<Rightarrow> Inl e
      | Inr url \<Rightarrow> Inr (urlToString rt url))"

text \<open>The filters \<open>SearchListingsTool.executeImpl\<close> builds from validated arguments.\<close>

definition filtersOf :: "SearchListingsArgs \<Rightarrow> SearchFilters" where
  "filtersOf args =
     \<lparr>domain = arg_domain args,
      query = arg_query args,
      category = arg_category args,
      location = arg_location args,
      minPrice = arg_minPrice args,
      maxPrice = arg_maxPrice args,
      page = Some (arg_page args),
      limit = Some (arg_limit args),
      sortBy = Some (arg_sortBy args)\<rparr>"

subsection \<open>Listings, search results and the state of a session\<close>

record SellerInfo =
  seller_name :: "jstring option"
  seller_verified :: bool

record Listing =
  l_id :: jstring
  l_title :: jstring
  l_price :: "jstring option"
  l_location :: "jstring option"
  l_imageUrl :: "jstring option"
  l_url :: jstring
  l_description :: "jstring option"
  l_seller :: "SellerInfo option"

record SearchResult =
  listings :: "Listing list"
  totalCount :: nat
  currentPage :: int
  totalPages :: nat
  hasNextPage :: bool

text \<open>
  What a session changes: the \<open>urlCache\<close> of the one scraper the factory keeps per
  domain, the URLs passed to \<open>page.goto\<close> in order, the delays waited for by the retry
  loop, and the number of \<open>Date.now()\<close> readings taken. Opening and closing the page
  in \<open>withPage\<close> leave no trace in it.
\<close>

record world =
  urlCache :: "OlxDomain \<Rightarrow> jstring \<rightharpoonup> jstring"
  gotoLog :: "jstring list"
  sleeps :: "nat list"
  clockReads :: nat

definition goto :: "runtime \<Rightarrow> jstring \<Rightarrow> (page_dom, world) io" where
  "goto rt url =
     (\<lambda>s. case web rt (gotoLog s) url of
             Inl e \<Rightarrow> (Threw (ErrorVal e), s\<lparr>gotoLog := gotoLog s @ [url]\<rparr>)
           | Inr doc \<Rightarrow> (Returned doc, s\<lparr>gotoLog := gotoLog s @ [url]\<rparr>))"

definition withPage :: "world signal \<Rightarrow> ('a, world) io \<Rightarrow> ('a, world) io" where
  "withPage signal fn =
     (\<lambda>s. if aborted signal s then throw (ErrorVal (Error (ascii ''Operation cancelled''))) s
          else fn s)"

text \<open>\<open>retryOperation\<close> inside a session: the delays go to the session's record.\<close>

definition retryIO :: "('a, world) io \<Rightarrow> nat \<Rightarrow> ('a, world) io" where
  "retryIO operation maxRetries =
     (\<lambda>s. case retryOperation operation maxRetries s of
            ((r, slept), s') \<Rightarrow> (r, s'\<lparr>sleeps := sleeps s' @ slept\<rparr>))"

subsection \<open>Locale scrapers: \<open>extractListingId\<close> and \<open>findListingUrl\<close>\<close>

text \<open>
  The match of \<open>/ID([A-Za-z0-9]+)\.html/\<close>: at the leftmost position where \<open>ID\<close> is
  followed by a non-empty run of letters and digits and then by \<open>.html\<close>, the run. The
  run is the maximal one, as a shorter one would have to be followed by a dot.
\<close>

definition matchIdHere :: "jstring \<Rightarrow> jstring option" where
  "matchIdHere s =
     (if take 2 s = ascii ''ID'' then
        (let run = takeWhile isAlnum (drop 2 s); rest = dropWhile isAlnum (drop 2 s)
         in if run \<noteq> [] \<and> take 5 rest = ascii ''.html'' then Some run else None)
      else None)"

fun matchId :: "jstring \<Rightarrow> jstring option" where
  "matchId [] = None"
| "matchId (c # cs) = (case matchIdHere (c # cs) of Some i \<Rightarrow> Some i | None \<Rightarrow> matchId cs)"

datatype ScraperClass = OLXPTScraper | OLXPLScraper | GenericOlxScraper

text \<open>\<open>OlxScraperFactory.createScraper\<close>: the class of the scraper of a domain.\<close>

definition createScraper :: "OlxDomain \<Rightarrow> ScraperClass" where
  "createScraper d =
     (case d of olx_pt \<Rightarrow> OLXPTScraper | olx_pl \<Rightarrow> OLXPLScraper
      | olx_bg \<Rightarrow> GenericOlxScraper | olx_ro \<Rightarrow> GenericOlxScraper | olx_ua \<Rightarrow> GenericOlxScraper)"

text \<open>\<open>extractListingId(url)\<close>, called when \<open>Date.now()\<close> reads \<open>now\<close>. The three classes
  have the same body.\<close>

definition OLXPTScraper_extractListingId :: "jstring \<Rightarrow> nat \<Rightarrow> jstring" where
  "OLXPTScraper_extractListingId url now =
     (case matchId url of Some matchedId \<Rightarrow> matchedId | None \<Rightarrow> decimal now)"

definition OLXPLScraper_extractListingId :: "jstring \<Rightarrow> nat \<Rightarrow> jstring" where
  "OLXPLScraper_extractListingId url now =
     (case matchId url of Some matchedId \<Rightarrow> matchedId | None \<Rightarrow> decimal now)"

definition GenericOlxScraper_extractListingId :: "jstring \<Rightarrow> nat \<Rightarrow> jstring" where
  "GenericOlxScraper_extractListingId url now =
     (case matchId url of Some matchedId \<Rightarrow> matchedId | None \<Rightarrow> decimal now)"

definition extractListingId :: "ScraperClass \<Rightarrow> jstring \<Rightarrow> nat \<Rightarrow> jstring" where
  "extractListingId cls url now =
     (case cls of
        OLXPTScraper \<Rightarrow> OLXPTScraper_extractListingId url now
      | OLXPLScraper \<Rightarrow> OLXPLScraper_extractListingId url now
      | GenericOlxScraper \<Rightarrow> GenericOlxScraper_extractListingId url now)"

text \<open>The call inside a session: the clock is read only when the pattern does not
  match.\<close>

definition extractListingId_io :: "runtime \<Rightarrow> ScraperClass \<Rightarrow> jstring \<Rightarrow> world \<Rightarrow> jstring \<times> world" where
  "extractListingId_io rt cls url s =
     (extractListingId cls url (clock rt (clockReads s)),
      if matchId url = None then s\<lparr>clockReads := Suc (clockReads s)\<rparr> else s)"

fun contains :: "jstring \<Rightarrow> jstring \<Rightarrow> bool" where
  "contains x [] = (x = [])"
| "contains x (c # cs) = (take (length x) (c # cs) = x \<or> contains x cs)"

text \<open>\<open>new URL(ref, base).toString()\<close>.\<close>

definition absoluteUrl :: "runtime \<Rightarrow> jstring \<Rightarrow> jstring \<Rightarrow> js_error + jstring" where
  "absoluteUrl rt ref base =
     (case newURL rt ref base of Inl e \<Rightarrow> Inl e | Inr url \<Rightarrow> Inr (urlToString rt url))"

text \<open>\<open>findListingUrl\<close>: the three classes differ in the listing root of the
  search-by-id URL only (the generic class is never built for \<open>olx.pl\<close>, but tests for
  it). The selector \<open>[data-cy="l-card"] a[href*="ID<id>"]\<close> finds the first link of a
  result card whose \<open>href\<close> contains \<open>ID<id>\<close>, for an id without characters special in
  a CSS string.\<close>

definition searchByIdUrl :: "ScraperClass \<Rightarrow> DomainConfig \<Rightarrow> jstring \<Rightarrow> jstring" where
  "searchByIdUrl cls domainConfig listingId =
     baseUrl domainConfig @
     (case cls of
        OLXPTScraper \<Rightarrow> ascii ''/ads/''
      | OLXPLScraper \<Rightarrow> ascii ''/oferty/''
      | GenericOlxScraper \<Rightarrow>
          if cfg_domain domainConfig = olx_pl then ascii ''/oferty/'' else ascii ''/ads/'') @
     ascii ''q-'' @ listingId @ ascii ''/''"

definition findListingUrl ::
  "runtime \<Rightarrow> ScraperClass \<Rightarrow> DomainConfig \<Rightarrow> jstring \<Rightarrow> (jstring, world) io" where
  "findListingUrl rt cls domainConfig listingId =
     try_catch
       (bind (goto rt (searchByIdUrl cls domainConfig listingId))
          (\<lambda>doc.
             case filter (contains (ascii ''ID'' @ listingId)) (concat (map card_links (cards doc))) of
               [] \<Rightarrow> ret []
             | listingLink # _ \<Rightarrow>
                 if listingLink \<noteq> [] then
                   (case absoluteUrl rt listingLink (baseUrl domainConfig) of
                      Inl e \<Rightarrow> throw (ErrorVal e)
                    | Inr fullUrl \<Rightarrow> ret fullUrl)
                 else ret []))
       (\<lambda>error. ret [])"

subsection \<open>Search: \<open>extractListings\<close>, \<open>extractPaginationInfo\<close>, \<open>performSearch\<close>, \<open>scrape\<close>\<close>

text \<open>\<open>$eval(selector, el => el.textContent?.trim() || '').catch(() => '')\<close>.\<close>

definition textOf :: "jstring option \<Rightarrow> jstring" where
  "textOf t = (case t of None \<Rightarrow> [] | Some text \<Rightarrow> trim text)"

definition imageOf :: "(jstring option \<times> jstring option) option \<Rightarrow> jstring" where
  "imageOf img =
     (case img of
        None \<Rightarrow> []
      | Some (src, dataSrc) \<Rightarrow>
          if truthyStr src then strOf src else if truthyStr dataSrc then strOf dataSrc else [])"

definition linkOf :: "jstring list \<Rightarrow> jstring" where
  "linkOf links = (case links of [] \<Rightarrow> [] | href # _ \<Rightarrow> href)"

text \<open>The loop over the result cards. A card without title or link is skipped by the
  \<open>continue\<close>, one whose link \<open>new URL\<close> rejects by the \<open>catch\<close>.\<close>

fun extractListingsLoop ::
  "runtime \<Rightarrow> ScraperClass \<Rightarrow> DomainConfig \<Rightarrow> card list \<Rightarrow> Listing list \<Rightarrow> world \<Rightarrow> Listing list \<times> world" where
  "extractListingsLoop rt cls domainConfig [] acc s = (acc, s)"
| "extractListingsLoop rt cls domainConfig (element # rest) acc s =
     (let title = textOf (card_title element);
          finalPrice = orUndefined (textOf (card_price element));
          finalLocation = orUndefined (textOf (card_location element));
          finalImageUrl = orUndefined (imageOf (card_image element));
          relativeUrl = linkOf (card_links element)
      in if title = [] \<or> relativeUrl = [] then extractListingsLoop rt cls domainConfig rest acc s
         else
           (case absoluteUrl rt relativeUrl (baseUrl domainConfig) of
              Inl e \<Rightarrow> extractListingsLoop rt cls domainConfig rest acc s
            | Inr url \<Rightarrow>
                (case extractListingId_io rt cls relativeUrl s of
                   (i, s1) \<Rightarrow>
                     extractListingsLoop rt cls domainConfig rest
                       (acc @ [\<lparr>l_id = i, l_title = title, l_price = finalPrice,
                                 l_location = finalLocation, l_imageUrl = finalImageUrl,
                                 l_url = url, l_description = None, l_seller = None\<rparr>])
                       (s1\<lparr>urlCache := (urlCache s1)
                             (cfg_domain domainConfig := (urlCache s1 (cfg_domain domainConfig))(i \<mapsto> url))\<rparr>))))"

definition extractListings ::
  "runtime \<Rightarrow> ScraperClass \<Rightarrow> DomainConfig \<Rightarrow> page_dom \<Rightarrow> world \<Rightarrow> Listing list \<times> world" where
  "extractListings rt cls domainConfig doc s =
     extractListingsLoop rt cls domainConfig (cards doc) [] s"

text \<open>The cards the loop turns into listings, and the listing it builds for one of them
  once the id is known: the vocabulary for what a search returns.\<close>

definition accepted :: "runtime \<Rightarrow> DomainConfig \<Rightarrow> card \<Rightarrow> bool" where
  "accepted rt domainConfig element \<longleftrightarrow>
     textOf (card_title element) \<noteq> [] \<and> linkOf (card_links element) \<noteq> [] \<and>
     (case absoluteUrl rt (linkOf (card_links element)) (baseUrl domainConfig) of
        Inl e \<Rightarrow> False | Inr url \<Rightarrow> True)"

definition listingOfCard :: "runtime \<Rightarrow> DomainConfig \<Rightarrow> jstring \<Rightarrow> card \<Rightarrow> Listing" where
  "listingOfCard rt domainConfig i element =
     \<lparr>l_id = i,
      l_title = textOf (card_title element),
      l_price = orUndefined (textOf (card_price element)),
      l_location = orUndefined (textOf (card_location element)),
      l_imageUrl = orUndefined (imageOf (card_image element)),
      l_url = (case absoluteUrl rt (linkOf (card_links element)) (baseUrl domainConfig) of
                 Inl e \<Rightarrow> [] | Inr url \<Rightarrow> url),
      l_description = None, l_seller = None\<rparr>"


text \<open>\<open>text.match(/(\d+)/)\<close>: the first maximal run of digits, empty when there is no
  digit. \<open>Math.ceil(totalCount / itemsPerPage)\<close> on natural numbers is
  \<open>(totalCount + itemsPerPage - 1) div itemsPerPage\<close>. The record returned holds the
  listings too, which \<open>performSearch\<close> puts beside the pagination fields.\<close>

definition firstDigits :: "jstring \<Rightarrow> jstring" where
  "firstDigits text = takeWhile isDigit (dropWhile (\<lambda>c. \<not> isDigit c) text)"

definition extractPaginationInfo :: "page_dom \<Rightarrow> int \<Rightarrow> Listing list \<Rightarrow> SearchResult" where
  "extractPaginationInfo doc current ls =
     (let totalCount =
            (case totalCount_text doc of
               None \<Rightarrow> 0
             | Some text \<Rightarrow> if firstDigits text \<noteq> [] then parseInt (firstDigits text) else 0);
          hasNextPage = nextPage_present doc;
          itemsPerPage = 40;
          totalPages = (totalCount + itemsPerPage - 1) div itemsPerPage
      in \<lparr>listings = ls, totalCount = totalCount, currentPage = current,
          totalPages = max totalPages 1, hasNextPage = hasNextPage\<rparr>)"

definition performSearch ::
  "runtime \<Rightarrow> ScraperClass \<Rightarrow> DomainConfig \<Rightarrow> SearchFilters \<Rightarrow> world signal \<Rightarrow> (SearchResult, world) io" where
  "performSearch rt cls domainConfig filters signal =
     withPage signal
       (case buildSearchUrl rt domainConfig filters of
          Inl e \<Rightarrow> throw (ErrorVal e)
        | Inr searchUrl \<Rightarrow>
            bind (goto rt searchUrl)
              (\<lambda>doc s.
                 if aborted signal s then throw (ErrorVal (Error (ascii ''Operation cancelled''))) s
                 else (case extractListings rt cls domainConfig doc s of
                         (ls, s') \<Rightarrow>
                           (Returned (extractPaginationInfo doc
                              (if truthyNum (page filters) then numOf (page filters) else 1) ls), s'))))"

definition scrape ::
  "runtime \<Rightarrow> ScraperClass \<Rightarrow> DomainConfig \<Rightarrow> SearchFilters \<Rightarrow> world signal \<Rightarrow>
   (SearchResult Result, world) io" where
  "scrape rt cls domainConfig filters signal =
     try_catch
       (bind (retryIO (performSearch rt cls domainConfig filters signal) 3)
          (\<lambda>result. ret (createResult result)))
       (\<lambda>error. case toError error of
                  Inl thrown \<Rightarrow> throw thrown
                | Inr e \<Rightarrow> ret (createError (Inl e)))"

subsection \<open>Details: \<open>performGetListingDetails\<close>, \<open>extractSellerInfo\<close>, \<open>getListingDetails\<close>\<close>

definition extractSellerInfo :: "page_dom \<Rightarrow> SellerInfo option" where
  "extractSellerInfo doc =
     (let name = orUndefined (textOf (seller_name_text doc));
          verified = seller_verified_present doc
      in if name \<noteq> None \<or> verified then Some \<lparr>seller_name = name, seller_verified = verified\<rparr>
         else None)"

definition notFoundMessage :: "jstring \<Rightarrow> jstring" where
  "notFoundMessage listingId =
     ascii ''Listing with ID '' @ listingId @
     ascii '' not found. Try searching first to cache the URL.''"

definition performGetListingDetails ::
  "runtime \<Rightarrow> ScraperClass \<Rightarrow> DomainConfig \<Rightarrow> jstring \<Rightarrow> world signal \<Rightarrow> (Listing, world) io" where
  "performGetListingDetails rt cls domainConfig listingId signal =
     withPage signal
       (\<lambda>s0.
          bind
            (let cachedUrl = urlCache s0 (cfg_domain domainConfig) listingId
             in if truthyStr cachedUrl then ret (strOf cachedUrl)
                else findListingUrl rt cls domainConfig listingId)
            (\<lambda>finalUrl.
               if finalUrl = [] then throw (ErrorVal (Error (notFoundMessage listingId)))
               else
                 bind (goto rt finalUrl)
                   (\<lambda>doc s.
                      if aborted signal s then throw (ErrorVal (Error (ascii ''Operation cancelled''))) s
                      else
                        ret \<lparr>l_id = listingId,
                             l_title = textOf (detail_title doc),
                             l_price = orUndefined (textOf (detail_price doc)),
                             l_location = orUndefined (textOf (detail_location doc)),
                             l_imageUrl = None,
                             l_url = finalUrl,
                             l_description = orUndefined (textOf (detail_description doc)),
                             l_seller = extractSellerInfo doc\<rparr> s))
            s0)"

definition getListingDetails ::
  "runtime \<Rightarrow> ScraperClass \<Rightarrow> DomainConfig \<Rightarrow> jstring \<Rightarrow> world signal \<Rightarrow> (Listing Result, world) io" where
  "getListingDetails rt cls domainConfig listingId signal =
     try_catch
       (bind (retryIO (performGetListingDetails rt cls domainConfig listingId signal) 3)
          (\<lambda>result. ret (createResult result)))
       (\<lambda>error. case toError error of
                  Inl thrown \<Rightarrow> throw thrown
                | Inr e \<Rightarrow> ret (createError (Inl e)))"

section \<open>Tool operations\<close>

definition SearchListingsTool_executeImpl ::
  "runtime \<Rightarrow> SearchListingsArgs \<Rightarrow> world signal \<Rightarrow> (SearchResult, world) io" where
  "SearchListingsTool_executeImpl rt args signal =
     bind (scrape rt (createScraper (arg_domain args)) (getDomainConfig rt (arg_domain args))
             (filtersOf args) signal)
       (\<lambda>result. case result of Failure e \<Rightarrow> throw (ErrorVal e) | Success d \<Rightarrow> ret d)"

definition GetListingDetailsTool_executeImpl ::
  "runtime \<Rightarrow> GetListingDetailsArgs \<Rightarrow> world signal \<Rightarrow> (Listing, world) io" where
  "GetListingDetailsTool_executeImpl rt args signal =
     bind (getListingDetails rt (createScraper (garg_domain args))
             (getDomainConfig rt (garg_domain args)) (garg_listingId args) signal)
       (\<lambda>result. case result of Failure e \<Rightarrow> throw (ErrorVal e) | Success d \<Rightarrow> ret d)"

definition searchListings ::
  "runtime \<Rightarrow> (SearchListingsInput \<Rightarrow> zod_issue list) \<Rightarrow> SearchListingsInput \<Rightarrow> world signal \<Rightarrow>
   (SearchResult Result, world) io" where
  "searchListings rt zodIssues args signal =
     execute (SearchListingsArgsSchema zodIssues) (SearchListingsTool_executeImpl rt) args signal"

definition getListingDetailsTool ::
  "runtime \<Rightarrow> (GetListingDetailsInput \<Rightarrow> zod_issue list) \<Rightarrow> GetListingDetailsInput \<Rightarrow> world signal \<Rightarrow>
   (Listing Result, world) io" where
  "getListingDetailsTool rt zodIssues args signal =
     execute (GetListingDetailsArgsSchema zodIssues) (GetListingDetailsTool_executeImpl rt) args signal"

section \<open>A runtime for evaluating the model\<close>

text \<open>
  A small instance of \<open>runtime\<close> on which the definitions above compute. It lower-cases
  the letters A to Z; it resolves a root-relative reference made of letters, digits,
  hyphens, underscores, dots and single slashes, with no segment starting with a dot,
  by appending it to the origin, and rejects every other reference as \<open>new URL\<close> rejects
  \<open>http://\<close>; it serialises the query as \<open>URLSearchParams\<close> does (code units outside the
  surrogate range); the clock advances by one millisecond per reading. The pages of the
  site are its parameter.
\<close>

definition simpleRef :: "jstring \<Rightarrow> bool" where
  "simpleRef ref \<longleftrightarrow>
     take 1 ref = ascii ''/'' \<and>
     list_all (\<lambda>c. isAlnum c \<or> c = 45 \<or> c = 46 \<or> c = 47 \<or> c = 95) ref \<and>
     \<not> contains (ascii ''//'') ref \<and> \<not> contains (ascii ''/.'') ref"

definition utf8 :: "nat \<Rightarrow> nat list" where
  "utf8 c =
     (if c < 128 then [c]
      else if c < 2048 then [192 + c div 64, 128 + c mod 64]
      else [224 + c div 4096, 128 + (c div 64) mod 64, 128 + c mod 64])"

definition hexDigit :: "nat \<Rightarrow> nat" where
  "hexDigit n = (if n < 10 then 48 + n else 55 + n)"

definition encodeByte :: "nat \<Rightarrow> jstring" where
  "encodeByte b =
     (if isAlnum b \<or> b = 42 \<or> b = 45 \<or> b = 46 \<or> b = 95 then [b]
      else if b = 32 then [43]
      else [37, hexDigit (b div 16), hexDigit (b mod 16)])"

definition formEncode :: "jstring \<Rightarrow> jstring" where
  "formEncode s = concat (map encodeByte (concat (map utf8 s)))"

definition sampleRuntime :: "(jstring list \<Rightarrow> jstring \<Rightarrow> js_error + page_dom) \<Rightarrow> runtime" where
  "sampleRuntime site =
     \<lparr>toLowerCase = map (\<lambda>c. if isUpper c then c + 32 else c),
      newURL = (\<lambda>ref base.
         if simpleRef ref then Inr \<lparr>beforeQuery = base @ ref, searchParams = [], hash = []\<rparr>
         else Inl (Error (ascii ''Invalid URL''))),
      urlToString = (\<lambda>url.
         beforeQuery url @
         (if searchParams url = [] then []
          else 63 # join (ascii ''&'')
                 (map (\<lambda>p. formEncode (fst p) @ ascii ''='' @ formEncode (snd p)) (searchParams url))) @
         hash url),
      web = site,
      clock = (\<lambda>n. 1700000000000 + n)\<rparr>"

definition initialWorld :: world where
  "initialWorld = \<lparr>urlCache = (\<lambda>d. Map.empty), gotoLog = [], sleeps = [], clockReads = 0\<rparr>"

text \<open>A sample site: a search page for \<open>phone\<close> on \<open>olx.pt\<close> with two result cards, a
  detail page on which no selector matches, and no other page.\<close>

definition noPage :: page_dom where
  "noPage = \<lparr>cards = [], totalCount_text = None, nextPage_present = False,
     detail_title = None, detail_price = None, detail_description = None, detail_location = None,
     seller_name_text = None, seller_verified_present = False\<rparr>"

definition samplePage :: page_dom where
  "samplePage = noPage
     \<lparr>cards :=
        [\<lparr>card_title = Some (ascii '' iPhone 13 ''), card_price = Some (ascii ''500''),
          card_location = Some (ascii ''Lisboa''), card_image = None,
          card_links = [ascii ''/d/anuncio/iphone-13-IDabc12.html'']\<rparr>,
         \<lparr>card_title = Some (ascii ''Galaxy S21''), card_price = None,
          card_location = None, card_image = None,
          card_links = [ascii ''/d/anuncio/galaxy-s21-IDxyz9.html'']\<rparr>],
      totalCount_text := Some (ascii ''Found 2 ads'')\<rparr>"

definition sampleSite :: "jstring list \<Rightarrow> jstring \<Rightarrow> js_error + page_dom" where
  "sampleSite history url =
     (if url = ascii ''https://www.olx.pt/ads/q-phone/'' then Inr samplePage
      else if url = ascii ''https://www.olx.pt/d/anuncio/iphone-13-IDabc12.html'' then Inr noPage
      else Inl (Error (ascii ''net::ERR_ABORTED'')))"

section \<open>Properties\<close>

subsection \<open>Listing ids\<close>

lemma matchIdHere_hit:
  assumes "run \<noteq> []" "\<forall>c\<in>set run. isAlnum c"
  shows "matchIdHere (ascii ''ID'' @ run @ ascii ''.html'' @ post) = Some run"
proof -
  have dot: "\<not> isAlnum 46" by (simp add: isAlnum_def isUpper_def isLower_def isDigit_def)
  have a: "ascii ''.html'' @ post = 46 # (ascii ''html'' @ post)" by (simp add: ascii_def)
  have tw: "takeWhile isAlnum (run @ ascii ''.html'' @ post) = run"
    using assms(2) dot unfolding a by (simp add: takeWhile_append2 del: append.simps)
  have dw: "dropWhile isAlnum (run @ ascii ''.html'' @ post) = ascii ''.html'' @ post"
    using assms(2) dot unfolding a by (simp add: dropWhile_append2)
  have d2: "drop 2 (ascii ''ID'' @ run @ ascii ''.html'' @ post) = run @ ascii ''.html'' @ post"
    by (simp add: ascii_def)
  have t2: "take 2 (ascii ''ID'' @ run @ ascii ''.html'' @ post) = ascii ''ID''"
    by (simp add: ascii_def)
  have t5: "take 5 (ascii ''.html'' @ post) = ascii ''.html''" by (simp add: ascii_def)
  show ?thesis
    using assms(1) by (simp only: matchIdHere_def Let_def t2 d2 tw dw t5 if_True simp_thms)
qed

lemma matchId_found:
  assumes "run \<noteq> []" "\<forall>c\<in>set run. isAlnum c"
  shows "matchId (pre @ ascii ''ID'' @ run @ ascii ''.html'' @ post) \<noteq> None"
proof (induction pre)
  case Nil
  have "ascii ''ID'' @ run @ ascii ''.html'' @ post = 73 # (68 # run @ ascii ''.html'' @ post)"
    by (simp add: ascii_def)
  then have "matchId (ascii ''ID'' @ run @ ascii ''.html'' @ post) =
     (case matchIdHere (ascii ''ID'' @ run @ ascii ''.html'' @ post) of Some i \<Rightarrow> Some i
      | None \<Rightarrow> matchId (68 # run @ ascii ''.html'' @ post))"
    by (metis matchId.simps(2))
  then show ?case using matchIdHere_hit[OF assms] by simp
next
  case (Cons c pre)
  then show ?case by (simp split: option.splits)
qed

text \<open>
  Claim C7, as amended. \<open>extractListingId\<close> returns the same id at every call for a URL
  in which \<open>ID\<close>, a non-empty run of letters and digits and \<open>.html\<close> follow one another
  (more generally, whenever the pattern matches): the clock is not consulted. For a URL
  without a match the id is the decimal reading of the clock at the call.
\<close>

theorem extractListingId_deterministic_when_matching:
  "(run \<noteq> [] \<and> (\<forall>c\<in>set run. isAlnum c) \<longrightarrow>
      extractListingId cls (pre @ ascii ''ID'' @ run @ ascii ''.html'' @ post) t1 =
      extractListingId cls (pre @ ascii ''ID'' @ run @ ascii ''.html'' @ post) t2) \<and>
   (matchId url \<noteq> None \<longrightarrow> extractListingId cls url t1 = extractListingId cls url t2) \<and>
   (matchId url = None \<longrightarrow> extractListingId cls url t1 = decimal t1)"
proof -
  have m: "matchId u \<noteq> None \<Longrightarrow> extractListingId cls u t1 = extractListingId cls u t2" for u
    by (cases cls)
       (auto simp: extractListingId_def OLXPTScraper_extractListingId_def
          OLXPLScraper_extractListingId_def GenericOlxScraper_extractListingId_def)
  have n: "matchId url = None \<Longrightarrow> extractListingId cls url t1 = decimal t1"
    by (cases cls)
       (auto simp: extractListingId_def OLXPTScraper_extractListingId_def
          OLXPLScraper_extractListingId_def GenericOlxScraper_extractListingId_def)
  show ?thesis using m n matchId_found by blast
qed

theorem extractListingId_deterministic_witness:
  "extractListingId OLXPTScraper (ascii ''/d/anuncio/iphone-13-IDabc12.html'') 5 = ascii ''abc12'' \<and>
   extractListingId OLXPTScraper (ascii ''/d/anuncio/iphone-13-IDabc12.html'') 5 =
   extractListingId OLXPTScraper (ascii ''/d/anuncio/iphone-13-IDabc12.html'') 6"
proof -
  have run: "ascii ''abc12'' \<noteq> [] \<and> (\<forall>c\<in>set (ascii ''abc12''). isAlnum c)"
    by (simp add: ascii_def isAlnum_def isUpper_def isLower_def isDigit_def)
  have split: "ascii ''/d/anuncio/iphone-13-IDabc12.html'' =
      ascii ''/d/anuncio/iphone-13-'' @ ascii ''ID'' @ ascii ''abc12'' @ ascii ''.html'' @ []"
    by (simp add: ascii_def)
  have v: "extractListingId OLXPTScraper (ascii ''/d/anuncio/iphone-13-IDabc12.html'') 5 = ascii ''abc12''"
    by (simp add: extractListingId_def OLXPTScraper_extractListingId_def matchIdHere_def ascii_def
        isAlnum_def isUpper_def isLower_def isDigit_def Let_def)
  from extractListingId_deterministic_when_matching
    [of "ascii ''abc12''" OLXPTScraper "ascii ''/d/anuncio/iphone-13-''" "[]" 5 6] run split v
  show ?thesis by simp
qed

text \<open>
  Claim C7 as stated fails: for a URL without the \<open>ID....html\<close> token, two calls one
  millisecond apart return different ids.
\<close>

theorem extractListingId_clock_counterexample:
  "extractListingId OLXPTScraper (ascii ''/d/anuncio/iphone-13'') 1700000000000 \<noteq>
   extractListingId OLXPTScraper (ascii ''/d/anuncio/iphone-13'') 1700000000001"
  by (simp add: extractListingId_def OLXPTScraper_extractListingId_def matchIdHere_def ascii_def
        decimal.simps)

subsection \<open>Execution framework\<close>

text \<open>
  Claim C2: \<open>BaseTool.execute\<close> returns a Result and never throws, whatever the
  implementation does; any value thrown inside, \<open>Error\<close> or not, comes back as a failure
  carrying an \<open>Error\<close>. The code does not do this for every thrown value. Its \<open>catch\<close>
  block ends with \<open>createError(error instanceof Error ? error : new Error(String(error)))\<close>,
  and \<open>String(error)\<close> itself throws for an object that cannot be converted to a
  primitive. With an implementation that throws \<open>Object.create(null)\<close>, \<open>execute\<close> throws
  the \<open>TypeError\<close> of that conversion; with one that throws an object whose \<open>toString\<close>
  throws the string \<open>boom\<close>, \<open>execute\<close> throws \<open>boom\<close>. In both cases no Result is
  returned.
\<close>

theorem execute_throws_on_unconvertible_value:
  "execute (\<lambda>raw::nat. Inr raw)
     (\<lambda>v signal s. (Threw (OtherVal NullPrototypeObject) :: nat outcome, Suc s))
     7 None (0::nat) = (Threw (ErrorVal cannotConvert), 1) \<and>
   execute (\<lambda>raw::nat. Inr raw)
     (\<lambda>v signal s. (Threw (OtherVal (ThrowingToString (OtherVal (StringVal (ascii ''boom''))))) :: nat outcome, Suc s))
     7 None (0::nat) = (Threw (OtherVal (StringVal (ascii ''boom''))), 1)"
  by (simp add: execute_def try_catch_def bind_def ret_def throw_def aborted_def)

text \<open>
  What \<open>execute\<close> does with the other thrown values: an \<open>Error\<close> comes back as the
  failure carrying it (a \<open>ZodError\<close> as a validation failure), a value that \<open>String\<close>
  converts as the failure carrying \<open>new Error(String(value))\<close>, so a thrown string as an
  \<open>Error\<close> with that string as message and a plain object as one with the message
  \<open>[object Object]\<close>. And \<open>execute\<close> throws in no other case than the one above: the
  implementation threw a value that is not an \<open>Error\<close> and that \<open>String\<close> throws on.
\<close>

lemma execute_stringifies_thrown_value:
  assumes "\<not> aborted signal s" "inputSchema args = Inr v"
    and "executeImpl v signal s = (Threw (OtherVal x), s1)" "String x = Inr message"
  shows "execute inputSchema executeImpl args signal s = (Returned (Failure (Error message)), s1)"
  using assms unfolding execute_def try_catch_def bind_def ret_def throw_def createError_def
  by simp

lemma execute_stringifies_string_and_object:
  "execute (\<lambda>raw::nat. Inr raw) (\<lambda>v signal s. (Threw (OtherVal (StringVal (ascii ''boom''))) :: nat outcome, Suc s))
     7 None (0::nat) = (Returned (Failure (Error (ascii ''boom''))), 1) \<and>
   execute (\<lambda>raw::nat. Inr raw) (\<lambda>v signal s. (Threw (OtherVal PlainObject) :: nat outcome, Suc s))
     7 None (0::nat) = (Returned (Failure (Error (ascii ''[object Object]''))), 1)"
  by (simp add: execute_def try_catch_def bind_def ret_def throw_def createError_def aborted_def)

lemma execute_throws_only_on_unconvertible_value:
  assumes "execute inputSchema executeImpl args signal s = (Threw t, s1)"
  shows "\<exists>v x. \<not> aborted signal s \<and> inputSchema args = Inr v \<and>
           executeImpl v signal s = (Threw (OtherVal x), s1) \<and> String x = Inl t"
  using assms unfolding execute_def try_catch_def bind_def ret_def throw_def createError_def
  by (auto split: if_splits prod.splits outcome.splits sum.splits js_thrown.splits js_error.splits)

lemma execute_aborted:
  "aborted signal s \<Longrightarrow>
   execute inputSchema executeImpl args signal s =
     (Returned (Failure (Error (ascii ''Operation cancelled''))), s)"
  unfolding execute_def try_catch_def ret_def throw_def createError_def by simp

text \<open>
  Claim C3. With a token already signalled when \<open>execute\<close> is called, \<open>searchListings\<close>
  and \<open>getListingDetails\<close> (and any tool built on \<open>BaseTool\<close>) return the failure
  \<open>Operation cancelled\<close> and leave the session as it was: nothing was navigated to
  (the log of \<open>page.goto\<close> is unchanged), and the arguments, valid or not, and the
  schema play no part in the result.
\<close>

theorem cancelled_before_validation_and_navigation:
  "aborted signal s \<Longrightarrow>
   searchListings rt zodIssues args signal s =
     (Returned (Failure (Error (ascii ''Operation cancelled''))), s) \<and>
   getListingDetailsTool rt zodIssues' args' signal s =
     (Returned (Failure (Error (ascii ''Operation cancelled''))), s) \<and>
   execute inputSchema executeImpl raw signal s =
     (Returned (Failure (Error (ascii ''Operation cancelled''))), s)"
  unfolding searchListings_def getListingDetailsTool_def by (simp add: execute_aborted)

theorem cancelled_before_validation_witness:
  "searchListings (sampleRuntime (\<lambda>h u. Inl (Error [])))  (\<lambda>raw. [])
     \<lparr>in_domain = ascii ''olx.com'', in_query = None, in_category = None, in_location = None,
      in_minPrice = Some (- 1), in_maxPrice = None, in_page = None, in_limit = None, in_sortBy = None\<rparr>
     (Some (\<lambda>s. True)) initialWorld =
     (Returned (Failure (Error (ascii ''Operation cancelled''))), initialWorld) \<and>
   gotoLog initialWorld = []"
proof -
  have a: "aborted (Some (\<lambda>s. True)) initialWorld" by (simp add: aborted_def)
  have "searchListings (sampleRuntime (\<lambda>h u. Inl (Error []))) (\<lambda>raw. [])
     \<lparr>in_domain = ascii ''olx.com'', in_query = None, in_category = None, in_location = None,
      in_minPrice = Some (- 1), in_maxPrice = None, in_page = None, in_limit = None, in_sortBy = None\<rparr>
     (Some (\<lambda>s. True)) initialWorld =
     (Returned (Failure (Error (ascii ''Operation cancelled''))), initialWorld)"
    by (rule cancelled_before_validation_and_navigation [OF a, THEN conjunct1])
  then show ?thesis by (simp add: initialWorld_def)
qed

subsection \<open>Retry coordinator\<close>

lemma stateAfter_shift:
  "stateAfter operation (snd (operation s)) k = stateAfter operation s (Suc k)"
  by (induction k) simp_all

lemma retryLoop_success:
  assumes "\<forall>j<k. threwConvertible (fst (operation (stateAfter operation s j)))"
    and "fst (operation (stateAfter operation s k)) = Returned v"
    and "a + k \<le> m"
  shows "retryLoop operation m a le slept s =
           ((Returned v, slept @ map backoff [a..<a + k]), stateAfter operation s (Suc k))"
  using assms
proof (induction k arbitrary: a s le slept)
  case 0
  then show ?case
    by (subst retryLoop.simps) (auto split: prod.splits outcome.splits)
next
  case (Suc k)
  from Suc.prems(1) have f0: "threwConvertible (fst (operation s))" by force
  then obtain e s' err where op: "operation s = (Threw e, s')" and te: "toError e = Inr err"
    by (cases "operation s") (auto simp: threwConvertible_def split: outcome.splits sum.splits)
  have s': "s' = snd (operation s)" using op by simp
  have p1: "\<forall>j<k. threwConvertible (fst (operation (stateAfter operation s' j)))"
    using Suc.prems(1) unfolding s' stateAfter_shift by auto
  have p2: "fst (operation (stateAfter operation s' k)) = Returned v"
    using Suc.prems(2) unfolding s' stateAfter_shift by simp
  have p3: "Suc a + k \<le> m" using Suc.prems(3) by simp
  have ih: "retryLoop operation m (Suc a) (Some err) (slept @ [backoff a]) s' =
      ((Returned v, (slept @ [backoff a]) @ map backoff [Suc a..<Suc a + k]), stateAfter operation s' (Suc k))"
    by (rule Suc.IH [OF p1 p2 p3])
  have lt: "a < m" "a \<le> m" "a \<noteq> m" using Suc.prems(3) by auto
  have up: "[a..<a + Suc k] = a # [Suc a..<Suc a + k]" by (simp add: upt_rec)
  have step: "retryLoop operation m a le slept s =
        retryLoop operation m (Suc a) (Some err) (slept @ [backoff a]) s'"
    by (subst retryLoop.simps) (simp add: op te lt backoff_def)
  have e1: "(slept @ [backoff a]) @ map backoff [Suc a..<Suc a + k] = slept @ map backoff [a..<a + Suc k]"
    by (simp only: up list.map append_assoc append_Cons append_Nil)
  have e2: "stateAfter operation s' (Suc k) = stateAfter operation s (Suc (Suc k))"
    unfolding s' by (rule stateAfter_shift)
  show ?case by (simp only: step ih e1 e2)
qed

lemma retryLoop_exhausted:
  assumes "\<forall>j<k. threwConvertible (fst (operation (stateAfter operation s j)))"
    and "fst (operation (stateAfter operation s k)) = Threw e"
    and "toError e = Inr lastError"
    and "a + k = m"
  shows "retryLoop operation m a le slept s =
           ((Threw (ErrorVal lastError), slept @ map backoff [a..<m]), stateAfter operation s (Suc k))"
  using assms
proof (induction k arbitrary: a s le slept)
  case 0
  then show ?case
    by (subst retryLoop.simps) (auto split: prod.splits outcome.splits)
next
  case (Suc k)
  from Suc.prems(1) have f0: "threwConvertible (fst (operation s))" by force
  then obtain e0 s' err where op: "operation s = (Threw e0, s')" and te: "toError e0 = Inr err"
    by (cases "operation s") (auto simp: threwConvertible_def split: outcome.splits sum.splits)
  have s': "s' = snd (operation s)" using op by simp
  have p1: "\<forall>j<k. threwConvertible (fst (operation (stateAfter operation s' j)))"
    using Suc.prems(1) unfolding s' stateAfter_shift by auto
  have p2: "fst (operation (stateAfter operation s' k)) = Threw e"
    using Suc.prems(2) unfolding s' stateAfter_shift by simp
  have p3: "Suc a + k = m" using Suc.prems(4) by simp
  have ih: "retryLoop operation m (Suc a) (Some err) (slept @ [backoff a]) s' =
      ((Threw (ErrorVal lastError), (slept @ [backoff a]) @ map backoff [Suc a..<m]), stateAfter operation s' (Suc k))"
    by (rule Suc.IH [OF p1 p2 Suc.prems(3) p3])
  have lt: "a < m" "a \<le> m" "a \<noteq> m" using Suc.prems(4) by auto
  have up: "[a..<m] = a # [Suc a..<m]" using lt by (simp add: upt_rec)
  have step: "retryLoop operation m a le slept s =
        retryLoop operation m (Suc a) (Some err) (slept @ [backoff a]) s'"
    by (subst retryLoop.simps) (simp add: op te lt backoff_def)
  have e1: "(slept @ [backoff a]) @ map backoff [Suc a..<m] = slept @ map backoff [a..<m]"
    by (simp add: up)
  have e2: "stateAfter operation s' (Suc k) = stateAfter operation s (Suc (Suc k))"
    unfolding s' by (rule stateAfter_shift)
  show ?case by (simp only: step ih e1 e2)
qed

lemma retryLoop_calls:
  "snd (snd (retryLoop (counted operation) m a le slept st)) \<le> snd st + (Suc m - a)"
proof (induction "counted operation" m a le slept st rule: retryLoop.induct)
  case (1 m a le slept st)
  show ?case
  proof (cases "a \<le> m")
    case False
    then show ?thesis by (subst retryLoop.simps) simp
  next
    case True
    obtain r st' where op: "counted operation st = (r, st')" by (cases "counted operation st")
    have cnt: "snd st' = Suc (snd st)"
      using op unfolding counted_def by (auto split: prod.splits)
    show ?thesis
    proof (cases r)
      case (Returned v)
      then show ?thesis using True op cnt by (subst retryLoop.simps) simp
    next
      case (Threw e)
      show ?thesis
      proof (cases "toError e")
        case (Inl thrown)
        then show ?thesis using True op cnt Threw by (subst retryLoop.simps) simp
      next
        case (Inr err)
        show ?thesis
        proof (cases "a = m")
          case True
          then show ?thesis using op cnt Threw Inr by (subst retryLoop.simps) simp
        next
          case False
          have "snd (snd (retryLoop (counted operation) m (a + 1) (Some err)
                   (slept @ [min (1000 * 2 ^ (a - 1)) 10000]) st')) \<le> snd st' + (Suc m - (a + 1))"
            using "1.hyps" [OF True op [symmetric] Threw Inr False] by simp
          then show ?thesis
            using True False op cnt Threw Inr by (subst retryLoop.simps) simp
        qed
      qed
    qed
  qed
qed

text \<open>
  Claim C4, as amended. \<open>retryOperation(operation, maxRetries)\<close> never invokes the
  operation more than \<open>maxRetries\<close> times, whatever it throws. And as long as each
  failing invocation throws an \<open>Error\<close> or a value that \<open>String\<close> converts: when
  invocation \<open>k\<close> is the first to succeed, with \<open>k\<close> at most \<open>maxRetries\<close>, its value
  is returned after exactly \<open>k\<close> invocations and the delays
  \<open>min(1000 * 2^(j-1), 10000)\<close> for \<open>j = 1, ..., k-1\<close>; when all \<open>maxRetries\<close>
  invocations fail, the value thrown by the last one is thrown on after the delays for
  \<open>j = 1, ..., maxRetries-1\<close>, unchanged if it is an \<open>Error\<close> and wrapped as
  \<open>new Error(String(value))\<close> if it is not.
\<close>

theorem retryOperation_contract:
  "(1 \<le> k \<and> k \<le> maxRetries \<and> (\<forall>j. 1 \<le> j \<and> j < k \<longrightarrow> threwConvertible (outcomeOf operation s j)) \<and>
      outcomeOf operation s k = Returned v \<longrightarrow>
      retryOperation operation maxRetries s =
        ((Returned v, map backoff [1..<k]), stateAfter operation s k)) \<and>
   (1 \<le> maxRetries \<and> (\<forall>j. 1 \<le> j \<and> j < maxRetries \<longrightarrow> threwConvertible (outcomeOf operation s j)) \<and>
      outcomeOf operation s maxRetries = Threw e \<and> toError e = Inr lastError \<longrightarrow>
      retryOperation operation maxRetries s =
        ((Threw (ErrorVal lastError), map backoff [1..<maxRetries]), stateAfter operation s maxRetries)) \<and>
   snd (snd (retryOperation (counted operation) maxRetries (s, 0))) \<le> maxRetries \<and>
   toError (ErrorVal err) = Inr err \<and>
   (String x = Inr message \<longrightarrow> toError (OtherVal x) = Inr (Error message)) \<and>
   backoff k = min (1000 * 2 ^ (k - 1)) 10000"
proof -
  have succ: "retryOperation operation maxRetries s =
        ((Returned v, map backoff [1..<k]), stateAfter operation s k)"
    if k: "1 \<le> k" "k \<le> maxRetries"
      and f: "\<forall>j. 1 \<le> j \<and> j < k \<longrightarrow> threwConvertible (outcomeOf operation s j)"
      and r: "outcomeOf operation s k = Returned v"
  proof -
    obtain k' where k': "k = Suc k'" using k(1) by (cases k) auto
    have a1: "\<forall>j<k'. threwConvertible (fst (operation (stateAfter operation s j)))"
    proof (intro allI impI)
      fix j assume "j < k'"
      then have "threwConvertible (outcomeOf operation s (Suc j))" using f k' by simp
      then show "threwConvertible (fst (operation (stateAfter operation s j)))" by (simp add: outcomeOf_def)
    qed
    have a2: "fst (operation (stateAfter operation s k')) = Returned v"
      using r k' by (simp add: outcomeOf_def)
    have a3: "1 + k' \<le> maxRetries" using k(2) k' by simp
    from retryLoop_success [OF a1 a2 a3, of None "[]"]
    show ?thesis unfolding retryOperation_def k' by simp
  qed
  have exh: "retryOperation operation maxRetries s =
        ((Threw (ErrorVal lastError), map backoff [1..<maxRetries]), stateAfter operation s maxRetries)"
    if m: "1 \<le> maxRetries"
      and f: "\<forall>j. 1 \<le> j \<and> j < maxRetries \<longrightarrow> threwConvertible (outcomeOf operation s j)"
      and r: "outcomeOf operation s maxRetries = Threw e"
      and te: "toError e = Inr lastError"
  proof -
    obtain k' where k': "maxRetries = Suc k'" using m by (cases maxRetries) auto
    have a1: "\<forall>j<k'. threwConvertible (fst (operation (stateAfter operation s j)))"
    proof (intro allI impI)
      fix j assume "j < k'"
      then have "threwConvertible (outcomeOf operation s (Suc j))" using f k' by simp
      then show "threwConvertible (fst (operation (stateAfter operation s j)))" by (simp add: outcomeOf_def)
    qed
    have a2: "fst (operation (stateAfter operation s k')) = Threw e"
      using r k' by (simp add: outcomeOf_def)
    have a3: "1 + k' = maxRetries" using k' by simp
    from retryLoop_exhausted [OF a1 a2 te a3, of None "[]"]
    show ?thesis unfolding retryOperation_def k' by simp
  qed
  have calls: "snd (snd (retryOperation (counted operation) maxRetries (s, 0))) \<le> maxRetries"
    using retryLoop_calls [of operation maxRetries 1 None "[]" "(s, 0)"]
    unfolding retryOperation_def by simp
  show ?thesis using succ exh calls by (simp add: backoff_def)
qed

theorem retryOperation_contract_witness:
  "retryOperation
     (\<lambda>n::nat. (if n < 2 then Threw (OtherVal (StringVal (ascii ''busy''))) else Returned n, Suc n))
     3 0 = ((Returned 2, [1000, 2000]), 3) \<and>
   retryOperation (\<lambda>n::nat. (Threw (ErrorVal (Error [48 + n])) :: nat outcome, Suc n)) 3 0 =
     ((Threw (ErrorVal (Error (ascii ''2''))), [1000, 2000]), 3)"
proof -
  let ?op = "\<lambda>n::nat. (if n < 2 then Threw (OtherVal (StringVal (ascii ''busy''))) else Returned n, Suc n)"
  let ?bad = "\<lambda>n::nat. (Threw (ErrorVal (Error [48 + n])) :: nat outcome, Suc n)"
  have three: "map backoff [Suc 0..<3] = [1000, 2000]"
    by (simp add: upt_rec backoff_def)
  have st: "stateAfter ?op 0 k = k" "stateAfter ?bad 0 k = k" for k
    by (induction k) simp_all
  have f1: "\<forall>j. 1 \<le> j \<and> j < 3 \<longrightarrow> threwConvertible (outcomeOf ?op 0 j)"
    by (auto simp: outcomeOf_def st threwConvertible_def)
  have r1: "outcomeOf ?op 0 3 = Returned 2"
    by (simp add: outcomeOf_def st)
  have f2: "\<forall>j. 1 \<le> j \<and> j < 3 \<longrightarrow> threwConvertible (outcomeOf ?bad 0 j)"
    by (auto simp: outcomeOf_def st threwConvertible_def)
  have r2: "outcomeOf ?bad 0 3 = Threw (ErrorVal (Error (ascii ''2'')))"
    by (simp add: outcomeOf_def st ascii_def)
  have t2: "toError (ErrorVal (Error (ascii ''2''))) = Inr (Error (ascii ''2''))"
    by simp
  from retryOperation_contract [of 3 3 ?op 0 2] f1 r1
  have a: "retryOperation ?op 3 0 = ((Returned 2, [1000, 2000]), 3)"
    by (simp add: three st)
  from retryOperation_contract [of 3 3 ?bad 0 _ "ErrorVal (Error (ascii ''2''))" "Error (ascii ''2'')"] f2 r2 t2
  have c: "retryOperation ?bad 3 0 = ((Threw (ErrorVal (Error (ascii ''2''))), [1000, 2000]), 3)"
    by (simp add: three st)
  show ?thesis using a c by simp
qed

text \<open>
  Claim C4 as stated fails in "propagated unchanged": an operation whose only attempt
  throws the string \<open>boom\<close> makes \<open>retryOperation\<close> throw an \<open>Error\<close> with that message,
  not the string.
\<close>

theorem retryOperation_wraps_thrown_string_counterexample:
  "fst (fst (retryOperation
     (\<lambda>s::unit. (Threw (OtherVal (StringVal (ascii ''boom''))) :: unit outcome, s)) 1 ())) \<noteq>
   Threw (OtherVal (StringVal (ascii ''boom''))) \<and>
   fst (fst (retryOperation
     (\<lambda>s::unit. (Threw (OtherVal (StringVal (ascii ''boom''))) :: unit outcome, s)) 1 ())) =
   Threw (ErrorVal (Error (ascii ''boom'')))"
  by (simp add: retryOperation_def retryLoop.simps)

text \<open>
  An attempt that throws a value on which \<open>String\<close> throws is outside that contract: the
  normalisation in the \<open>catch\<close> block throws, and \<open>retryOperation\<close> ends with what it
  threw after that one invocation, with attempts left and without a delay. Here the
  operation throws \<open>Object.create(null)\<close> every time and three attempts are allowed.
\<close>

lemma retryOperation_unconvertible_value:
  "retryOperation (\<lambda>n::nat. (Threw (OtherVal NullPrototypeObject) :: nat outcome, Suc n)) 3 0 =
     ((Threw (ErrorVal cannotConvert), []), 1)"
  by (simp add: retryOperation_def retryLoop.simps)

subsection \<open>Pagination\<close>






subsection \<open>Search paths\<close>

text \<open>
  Claim C8. In each of the five configurations the two copies of the query-slug pipeline
  compute the same slug: for a query \<open>q\<close> and a location \<open>loc\<close>, both non-empty, there
  is one slug such that the path without location is the listing root followed by
  \<open>q-slug/\<close> and the path with the location is \<open>/\<close>, the location slug and
  \<open>/q-slug/\<close>. An empty location gives the path built without location.
\<close>

theorem searchPath_same_query_slug:
  "(loc \<noteq> [] \<and> q \<noteq> [] \<longrightarrow>
   (\<exists>slug.
      searchPath (urlPatterns (getDomainConfig rt d)) None (Some q) =
        listingRoot d @ ascii ''q-'' @ slug @ ascii ''/'' \<and>
      searchPath (urlPatterns (getDomainConfig rt d)) (Some loc) (Some q) =
        ascii ''/'' @ locationSlugOf (toLowerCase rt) d loc @ ascii ''/q-'' @ slug @ ascii ''/'')) \<and>
   searchPath (urlPatterns (getDomainConfig rt d)) (Some []) (Some q) =
     searchPath (urlPatterns (getDomainConfig rt d)) None (Some q)"
proof (rule conjI)
  show "loc \<noteq> [] \<and> q \<noteq> [] \<longrightarrow>
   (\<exists>slug.
      searchPath (urlPatterns (getDomainConfig rt d)) None (Some q) =
        listingRoot d @ ascii ''q-'' @ slug @ ascii ''/'' \<and>
      searchPath (urlPatterns (getDomainConfig rt d)) (Some loc) (Some q) =
        ascii ''/'' @ locationSlugOf (toLowerCase rt) d loc @ ascii ''/q-'' @ slug @ ascii ''/'')"
  proof
    assume h: "loc \<noteq> [] \<and> q \<noteq> []"
    then have t: "truthyStr (Some loc)" "truthyStr (Some q)" "\<not> truthyStr None"
      by (simp_all add: truthyStr_def)
    have s: "strOf (Some loc) = loc" "strOf (Some q) = q" by (simp_all add: strOf_def)
    show "\<exists>slug.
        searchPath (urlPatterns (getDomainConfig rt d)) None (Some q) =
          listingRoot d @ ascii ''q-'' @ slug @ ascii ''/'' \<and>
        searchPath (urlPatterns (getDomainConfig rt d)) (Some loc) (Some q) =
          ascii ''/'' @ locationSlugOf (toLowerCase rt) d loc @ ascii ''/q-'' @ slug @ ascii ''/''"
    proof (cases d)
      case olx_pt
      show ?thesis
        unfolding olx_pt getDomainConfig_def OLX_DOMAIN_CONFIGS_def olxUrlPatterns_def
          listingRoot_def locationSlugOf_def searchPath_pt_def
        by (simp add: t s Let_def)
    next
      case olx_pl
      show ?thesis
        unfolding olx_pl getDomainConfig_def OLX_DOMAIN_CONFIGS_def olxUrlPatterns_def
          listingRoot_def locationSlugOf_def searchPath_pl_def
        by (simp add: t s Let_def)
    next
      case olx_bg
      show ?thesis
        unfolding olx_bg getDomainConfig_def OLX_DOMAIN_CONFIGS_def olxUrlPatterns_def
          listingRoot_def locationSlugOf_def searchPath_bg_def
        by (simp add: t s Let_def)
    next
      case olx_ro
      show ?thesis
        unfolding olx_ro getDomainConfig_def OLX_DOMAIN_CONFIGS_def olxUrlPatterns_def
          listingRoot_def locationSlugOf_def searchPath_ro_def
        by (simp add: t s Let_def)
    next
      case olx_ua
      show ?thesis
        unfolding olx_ua getDomainConfig_def OLX_DOMAIN_CONFIGS_def olxUrlPatterns_def
          listingRoot_def locationSlugOf_def searchPath_ua_def
        by (simp add: t s Let_def)
    qed
  qed
  show "searchPath (urlPatterns (getDomainConfig rt d)) (Some []) (Some q) =
     searchPath (urlPatterns (getDomainConfig rt d)) None (Some q)"
    by (cases d)
       (simp_all add: getDomainConfig_def OLX_DOMAIN_CONFIGS_def olxUrlPatterns_def truthyStr_def
          searchPath_pt_def searchPath_pl_def searchPath_bg_def searchPath_ro_def searchPath_ua_def)
qed

theorem searchPath_same_query_slug_witness:
  "searchPath (urlPatterns (getDomainConfig (sampleRuntime (\<lambda>h u. Inl (Error []))) olx_pl))
     None (Some (ascii ''Rower G'' @ [243] @ ascii ''rski''))
     = ascii ''/oferty/q-rower-gorski/'' \<and>
   searchPath (urlPatterns (getDomainConfig (sampleRuntime (\<lambda>h u. Inl (Error []))) olx_pl))
     (Some (ascii ''Krak'' @ [243] @ ascii ''w'')) (Some (ascii ''Rower G'' @ [243] @ ascii ''rski''))
     = ascii ''/krakow/q-rower-gorski/''"
proof -
  define rt where "rt = sampleRuntime (\<lambda>h u. Inl (Error []))"
  define q where "q = ascii ''Rower G'' @ [243] @ ascii ''rski''"
  define loc where "loc = ascii ''Krak'' @ [243] @ ascii ''w''"
  have ne: "loc \<noteq> [] \<and> q \<noteq> []" by (simp add: loc_def q_def ascii_def)
  from searchPath_same_query_slug [of loc q rt olx_pl, THEN conjunct1] ne
  obtain slug where
    flat: "searchPath (urlPatterns (getDomainConfig rt olx_pl)) None (Some q) =
        listingRoot olx_pl @ ascii ''q-'' @ slug @ ascii ''/''"
    and under: "searchPath (urlPatterns (getDomainConfig rt olx_pl)) (Some loc) (Some q) =
        ascii ''/'' @ locationSlugOf (toLowerCase rt) olx_pl loc @ ascii ''/q-'' @ slug @ ascii ''/''"
    by blast
  have ev: "searchPath (urlPatterns (getDomainConfig rt olx_pl)) None (Some q) =
      ascii ''/oferty/q-rower-gorski/''"
    by (simp add: rt_def q_def sampleRuntime_def getDomainConfig_def OLX_DOMAIN_CONFIGS_def
        olxUrlPatterns_def searchPath_pl_def truthyStr_def strOf_def Let_def ascii_def
        replaceChar_def stripOther_def trimHyphen_def isUpper_def isLower_def isDigit_def isSpace_def)
  have "listingRoot olx_pl @ ascii ''q-'' @ slug @ ascii ''/'' =
      listingRoot olx_pl @ ascii ''q-'' @ ascii ''rower-gorski'' @ ascii ''/''"
    using flat ev by (simp add: listingRoot_def ascii_def)
  then have sl: "slug = ascii ''rower-gorski''" by simp
  have ls: "locationSlugOf (toLowerCase rt) olx_pl loc = ascii ''krakow''"
    by (simp add: rt_def loc_def sampleRuntime_def locationSlugOf_def ascii_def
        replaceChar_def isUpper_def isSpace_def)
  have "searchPath (urlPatterns (getDomainConfig rt olx_pl)) (Some loc) (Some q) =
      ascii ''/krakow/q-rower-gorski/''"
    unfolding under sl ls by (simp add: ascii_def)
  with ev show ?thesis unfolding rt_def q_def loc_def by simp
qed

subsection \<open>Search URLs\<close>

lemma hasParam_set:
  "hasParam k (searchParams_set name v url) \<longleftrightarrow> k = name \<or> hasParam k url"
proof -
  have sf: "fst ` set (setFirst name v ps) = fst ` set ps" if "name \<in> fst ` set ps" for ps
    using that by (induction ps) (auto simp: image_iff)
  show ?thesis
    unfolding hasParam_def searchParams_set_def using sf [of "searchParams url"]
    by (auto simp: image_iff)
qed

lemma olx_param_names:
  "categoryParam (urlPatterns (getDomainConfig rt d)) = ascii ''c''"
  "priceParams_min (urlPatterns (getDomainConfig rt d)) = ascii ''search[filter_float_price:from]''"
  "priceParams_max (urlPatterns (getDomainConfig rt d)) = ascii ''search[filter_float_price:to]''"
  "pageParam (urlPatterns (getDomainConfig rt d)) = ascii ''page''"
  "sortParams (urlPatterns (getDomainConfig rt d)) = olxSortParams"
  by (cases d; simp add: getDomainConfig_def OLX_DOMAIN_CONFIGS_def olxUrlPatterns_def)+

lemma olx_names_distinct:
  "ascii ''c'' \<noteq> ascii ''search[filter_float_price:from]''"
  "ascii ''c'' \<noteq> ascii ''search[filter_float_price:to]''"
  "ascii ''c'' \<noteq> ascii ''search[order]''"
  "ascii ''c'' \<noteq> ascii ''page''"
  "ascii ''search[filter_float_price:from]'' \<noteq> ascii ''search[filter_float_price:to]''"
  "ascii ''search[filter_float_price:from]'' \<noteq> ascii ''search[order]''"
  "ascii ''search[filter_float_price:from]'' \<noteq> ascii ''page''"
  "ascii ''search[filter_float_price:to]'' \<noteq> ascii ''search[order]''"
  "ascii ''search[filter_float_price:to]'' \<noteq> ascii ''page''"
  "ascii ''search[order]'' \<noteq> ascii ''page''"
  by (simp_all add: ascii_def)

text \<open>
  The conditions under which \<open>buildSearchUrl\<close> sets each parameter, on a search path
  that parses to a URL without a query of its own: each is the truthiness test of the
  source (\<open>truthyStr\<close>, \<open>truthyNum\<close>: a set, non-empty string; a set number other than 0).
\<close>

lemma buildSearchUrl_params:
  assumes "newURL rt (searchPath (urlPatterns (getDomainConfig rt d)) (location filters) (query filters))
             (baseUrl (getDomainConfig rt d)) = Inr url0"
    and "searchParams url0 = []"
  shows "\<exists>url. buildSearchUrl_object rt (getDomainConfig rt d) filters = Inr url \<and>
     (hasParam (ascii ''c'') url \<longleftrightarrow> truthyStr (category filters)) \<and>
     (hasParam (ascii ''search[filter_float_price:from]'') url \<longleftrightarrow> truthyNum (minPrice filters)) \<and>
     (hasParam (ascii ''search[filter_float_price:to]'') url \<longleftrightarrow> truthyNum (maxPrice filters)) \<and>
     (hasParam (ascii ''search[order]'') url \<longleftrightarrow>
        sortBy filters \<noteq> None \<and> sortBy filters \<noteq> Some relevance) \<and>
     (hasParam (ascii ''page'') url \<longleftrightarrow> (\<exists>n. page filters = Some n \<and> 1 < n))"
proof -
  have h0: "\<not> hasParam k url0" for k using assms(2) by (simp add: hasParam_def)
  have srt: "olxSortParams sb \<noteq> None \<and> olxSortParams sb \<noteq> Some []" if "sb \<noteq> relevance" for sb
    using that by (cases sb) (simp_all add: olxSortParams_def ascii_def)
  have pg: "(truthyNum (page filters) \<and> 1 < numOf (page filters)) \<longleftrightarrow> (\<exists>n. page filters = Some n \<and> 1 < n)"
    by (cases "page filters") (auto simp: truthyNum_def numOf_def)
  show ?thesis
    unfolding buildSearchUrl_object_def Let_def assms(1) olx_param_names
    using h0 srt pg olx_names_distinct
    by (cases "sortBy filters")
       (auto simp: hasParam_set split: option.splits dest: srt)
qed


lemma sample_path: "searchPath (urlPatterns (getDomainConfig (sampleRuntime site) olx_pt)) None (Some (ascii ''phone''))
    = ascii ''/ads/q-phone/''"
  by (simp add: sampleRuntime_def getDomainConfig_def OLX_DOMAIN_CONFIGS_def
      olxUrlPatterns_def searchPath_pt_def truthyStr_def strOf_def Let_def ascii_def
      stripOther_def trimHyphen_def isUpper_def isLower_def isDigit_def isSpace_def)

lemma sample_ref: "simpleRef (ascii ''/ads/q-phone/'')"
  by (simp add: simpleRef_def ascii_def isAlnum_def isUpper_def isLower_def isDigit_def)

lemma schema_admits_zero_prices:
  "SearchListingsArgsSchema_admits
     \<lparr>in_domain = ascii ''olx.pt'', in_query = Some (ascii ''phone''), in_category = None,
      in_location = None, in_minPrice = Some 0, in_maxPrice = Some 0, in_page = None,
      in_limit = None, in_sortBy = None\<rparr>"
  by (simp add: SearchListingsArgsSchema_admits_def parseDomain_def optAll_def
        truthyNum_def truthyStr_def ascii_def)

text \<open>
  Claim C1: for every valid \<open>SearchFilters\<close>, the URL built by \<open>buildSearchUrl\<close> carries
  the category, minimum price, maximum price, sort and page parameters exactly when the
  corresponding field is set and not the default, also when \<open>minPrice\<close> or \<open>maxPrice\<close>
  is 0. The code does not do this at a price of 0. \<open>buildSearchUrl\<close> tests
  \<open>if (filters.minPrice)\<close> and \<open>if (filters.maxPrice)\<close>, and 0 is falsy: for the
  arguments \<open>{domain: 'olx.pt', query: 'phone', minPrice: 0, maxPrice: 0}\<close>, which the
  schema admits (\<open>schema_admits_zero_prices\<close>), the filters carry both prices, and
  the URL built is \<open>https://www.olx.pt/ads/q-phone/\<close>, with no price parameter (no
  parameter at all), where the claim requires both.
\<close>

theorem buildSearchUrl_drops_zero_price:
  "filtersOf (SearchListingsArgsSchema_output
     \<lparr>in_domain = ascii ''olx.pt'', in_query = Some (ascii ''phone''), in_category = None,
      in_location = None, in_minPrice = Some 0, in_maxPrice = Some 0, in_page = None,
      in_limit = None, in_sortBy = None\<rparr>) =
     \<lparr>domain = olx_pt, query = Some (ascii ''phone''), category = None, location = None,
      minPrice = Some 0, maxPrice = Some 0, page = Some 1, limit = Some 20, sortBy = Some relevance\<rparr> \<and>
   buildSearchUrl_object (sampleRuntime (\<lambda>h u. Inl (Error []))) (getDomainConfig (sampleRuntime (\<lambda>h u. Inl (Error []))) olx_pt)
     (filtersOf (SearchListingsArgsSchema_output
        \<lparr>in_domain = ascii ''olx.pt'', in_query = Some (ascii ''phone''), in_category = None,
         in_location = None, in_minPrice = Some 0, in_maxPrice = Some 0, in_page = None,
         in_limit = None, in_sortBy = None\<rparr>)) =
     Inr \<lparr>beforeQuery = ascii ''https://www.olx.pt/ads/q-phone/'', searchParams = [], hash = []\<rparr> \<and>
   buildSearchUrl (sampleRuntime (\<lambda>h u. Inl (Error []))) (getDomainConfig (sampleRuntime (\<lambda>h u. Inl (Error []))) olx_pt)
     (filtersOf (SearchListingsArgsSchema_output
        \<lparr>in_domain = ascii ''olx.pt'', in_query = Some (ascii ''phone''), in_category = None,
         in_location = None, in_minPrice = Some 0, in_maxPrice = Some 0, in_page = None,
         in_limit = None, in_sortBy = None\<rparr>)) =
     Inr (ascii ''https://www.olx.pt/ads/q-phone/'')"
proof -
  define raw where "raw = \<lparr>in_domain = ascii ''olx.pt'', in_query = Some (ascii ''phone''), in_category = None,
      in_location = None, in_minPrice = Some 0, in_maxPrice = Some 0, in_page = None,
      in_limit = None, in_sortBy = None\<rparr>"
  define rt where "rt = sampleRuntime (\<lambda>h u. Inl (Error []))"
  have f: "filtersOf (SearchListingsArgsSchema_output raw) =
      \<lparr>domain = olx_pt, query = Some (ascii ''phone''), category = None, location = None,
       minPrice = Some 0, maxPrice = Some 0, page = Some 1, limit = Some 20, sortBy = Some relevance\<rparr>"
    by (simp add: raw_def filtersOf_def SearchListingsArgsSchema_output_def parseDomain_def ascii_def)
  have nu: "newURL rt (ascii ''/ads/q-phone/'') (baseUrl (getDomainConfig rt olx_pt)) =
      Inr \<lparr>beforeQuery = ascii ''https://www.olx.pt/ads/q-phone/'', searchParams = [], hash = []\<rparr>"
    using sample_ref by (simp add: rt_def sampleRuntime_def getDomainConfig_def OLX_DOMAIN_CONFIGS_def ascii_def)
  have obj: "buildSearchUrl_object rt (getDomainConfig rt olx_pt) (filtersOf (SearchListingsArgsSchema_output raw)) =
      Inr \<lparr>beforeQuery = ascii ''https://www.olx.pt/ads/q-phone/'', searchParams = [], hash = []\<rparr>"
    unfolding f buildSearchUrl_object_def
    using sample_path [of "\<lambda>h u. Inl (Error [])"] nu
    by (simp add: rt_def Let_def truthyStr_def truthyNum_def numOf_def)
  have str: "buildSearchUrl rt (getDomainConfig rt olx_pt) (filtersOf (SearchListingsArgsSchema_output raw)) =
      Inr (ascii ''https://www.olx.pt/ads/q-phone/'')"
    unfolding buildSearchUrl_def obj by (simp add: rt_def sampleRuntime_def)
  show ?thesis using f obj str unfolding raw_def rt_def by simp
qed


text \<open>
  Two more inputs behind the same tests. The refinement of the schema compares the prices
  only when both are truthy (\<open>!data.maxPrice || !data.minPrice || ...\<close>), so a minimum of
  10 with a maximum of 0 is admitted. And the location goes into the path after
  lower-casing and the replacement of white space only, so a \<open>?\<close> in it stays: what
  follows it is then the query of the URL that \<open>new URL\<close> parses.
\<close>

lemma schema_admits_min_above_zero_max:
  "SearchListingsArgsSchema_admits
     \<lparr>in_domain = ascii ''olx.pt'', in_query = Some (ascii ''phone''), in_category = None,
      in_location = None, in_minPrice = Some 10, in_maxPrice = Some 0, in_page = None,
      in_limit = None, in_sortBy = None\<rparr>"
  by (simp add: SearchListingsArgsSchema_admits_def parseDomain_def optAll_def
        truthyNum_def truthyStr_def ascii_def)

lemma searchPath_location_keeps_question_mark:
  "searchPath (urlPatterns (getDomainConfig (sampleRuntime site) olx_pt))
     (Some (ascii ''porto?page=9'')) (Some (ascii ''phone'')) = ascii ''/porto?page=9/q-phone/''"
  by (simp add: sampleRuntime_def getDomainConfig_def OLX_DOMAIN_CONFIGS_def
      olxUrlPatterns_def searchPath_pt_def truthyStr_def strOf_def Let_def ascii_def
      stripOther_def trimHyphen_def isUpper_def isLower_def isDigit_def isSpace_def)

subsection \<open>Extraction of listings\<close>

lemma extractListingId_io_world:
  "urlCache (snd (extractListingId_io rt cls url s)) = urlCache s"
  "gotoLog (snd (extractListingId_io rt cls url s)) = gotoLog s"
  "sleeps (snd (extractListingId_io rt cls url s)) = sleeps s"
  by (simp_all add: extractListingId_io_def)

lemma extractListingsLoop_Cons:
  "extractListingsLoop rt cls cfg (c # rest) acc s =
     (if accepted rt cfg c then
        (let i = fst (extractListingId_io rt cls (linkOf (card_links c)) s);
             s1 = snd (extractListingId_io rt cls (linkOf (card_links c)) s)
         in extractListingsLoop rt cls cfg rest (acc @ [listingOfCard rt cfg i c])
              (s1\<lparr>urlCache := (urlCache s1)
                 (cfg_domain cfg := (urlCache s1 (cfg_domain cfg))(i \<mapsto> l_url (listingOfCard rt cfg i c)))\<rparr>))
      else extractListingsLoop rt cls cfg rest acc s)"
  by (simp add: accepted_def listingOfCard_def Let_def split: sum.splits prod.splits)

lemma extractListingsLoop_shape:
  "map (\<lambda>l. l\<lparr>l_id := []\<rparr>) (fst (extractListingsLoop rt cls cfg cs acc s)) =
   map (\<lambda>l. l\<lparr>l_id := []\<rparr>) acc @ map (listingOfCard rt cfg []) (filter (accepted rt cfg) cs)"
proof (induction cs arbitrary: acc s)
  case Nil
  then show ?case by simp
next
  case (Cons c cs)
  show ?case
    unfolding extractListingsLoop_Cons
    by (simp add: Cons.IH Let_def) (simp add: listingOfCard_def)
qed

lemma extractListingsLoop_log:
  "gotoLog (snd (extractListingsLoop rt cls cfg cs acc s)) = gotoLog s \<and>
   sleeps (snd (extractListingsLoop rt cls cfg cs acc s)) = sleeps s"
proof (induction cs arbitrary: acc s)
  case Nil
  then show ?case by simp
next
  case (Cons c cs)
  show ?case
    unfolding extractListingsLoop_Cons
    by (simp add: Cons.IH Let_def extractListingId_io_world)
qed



subsection \<open>Retried operations of the scraper\<close>



subsection \<open>Detail retrieval\<close>



lemma perform_hit:
  assumes "urlCache s (cfg_domain cfg) i = Some u" "u \<noteq> []" "\<not> aborted signal s"
  shows "performGetListingDetails rt cls cfg i signal s =
     (case web rt (gotoLog s) u of
        Inl e \<Rightarrow> Threw (ErrorVal e)
      | Inr doc \<Rightarrow>
          if aborted signal (s\<lparr>gotoLog := gotoLog s @ [u]\<rparr>)
          then Threw (ErrorVal (Error (ascii ''Operation cancelled'')))
          else Returned \<lparr>l_id = i, l_title = textOf (detail_title doc),
                 l_price = orUndefined (textOf (detail_price doc)),
                 l_location = orUndefined (textOf (detail_location doc)),
                 l_imageUrl = None, l_url = u,
                 l_description = orUndefined (textOf (detail_description doc)),
                 l_seller = extractSellerInfo doc\<rparr>,
      s\<lparr>gotoLog := gotoLog s @ [u]\<rparr>)"
  using assms
  by (simp add: performGetListingDetails_def withPage_def bind_def ret_def throw_def goto_def
      truthyStr_def strOf_def Let_def split: sum.splits)



lemma getListingDetails_unfold:
  "getListingDetails rt cls cfg i signal s =
     (case retryOperation (performGetListingDetails rt cls cfg i signal) 3 s of
        ((Returned v, slept), s') \<Rightarrow> (Returned (Success v), s'\<lparr>sleeps := sleeps s' @ slept\<rparr>)
      | ((Threw e, slept), s') \<Rightarrow>
          (case toError e of Inl thrown \<Rightarrow> Threw thrown | Inr err \<Rightarrow> Returned (Failure err),
           s'\<lparr>sleeps := sleeps s' @ slept\<rparr>))"
  by (simp add: getListingDetails_def try_catch_def bind_def retryIO_def ret_def throw_def createResult_def
      createError_def split: prod.splits outcome.splits sum.splits)



lemma getListingDetails_hit_success:
  assumes "urlCache s (cfg_domain cfg) i = Some u" "u \<noteq> []" "\<not> aborted signal s"
    and "\<not> aborted signal (s\<lparr>gotoLog := gotoLog s @ [u]\<rparr>)"
    and "web rt (gotoLog s) u = Inr doc"
  shows "getListingDetails rt cls cfg i signal s =
     (Returned (Success \<lparr>l_id = i, l_title = textOf (detail_title doc),
                 l_price = orUndefined (textOf (detail_price doc)),
                 l_location = orUndefined (textOf (detail_location doc)),
                 l_imageUrl = None, l_url = u,
                 l_description = orUndefined (textOf (detail_description doc)),
                 l_seller = extractSellerInfo doc\<rparr>),
      s\<lparr>gotoLog := gotoLog s @ [u]\<rparr>)"
proof -
  have p: "performGetListingDetails rt cls cfg i signal s =
     (Returned \<lparr>l_id = i, l_title = textOf (detail_title doc),
                 l_price = orUndefined (textOf (detail_price doc)),
                 l_location = orUndefined (textOf (detail_location doc)),
                 l_imageUrl = None, l_url = u,
                 l_description = orUndefined (textOf (detail_description doc)),
                 l_seller = extractSellerInfo doc\<rparr>,
      s\<lparr>gotoLog := gotoLog s @ [u]\<rparr>)"
    using perform_hit [OF assms(1,2,3), of rt cls] assms(4,5) by simp
  show ?thesis
    unfolding getListingDetails_unfold retryOperation_def
    by (subst retryLoop.simps) (simp add: p)
qed


subsection \<open>Search\<close>

lemma listings_extractPaginationInfo [simp]:
  "listings (extractPaginationInfo doc cur ls) = ls"
  by (simp add: extractPaginationInfo_def Let_def)

lemma scrape_unfold:
  "scrape rt cls cfg f signal s =
     (case retryOperation (performSearch rt cls cfg f signal) 3 s of
        ((Returned v, slept), s') \<Rightarrow> (Returned (Success v), s'\<lparr>sleeps := sleeps s' @ slept\<rparr>)
      | ((Threw e, slept), s') \<Rightarrow>
          (case toError e of Inl thrown \<Rightarrow> Threw thrown | Inr err \<Rightarrow> Returned (Failure err),
           s'\<lparr>sleeps := sleeps s' @ slept\<rparr>))"
  by (simp add: scrape_def try_catch_def bind_def retryIO_def ret_def throw_def createResult_def
      createError_def split: prod.splits outcome.splits sum.splits)

lemma buildSearchUrl_limit:
  "buildSearchUrl rt cfg (f\<lparr>limit := a\<rparr>) = buildSearchUrl rt cfg f"
proof -
  have "buildSearchUrl_object rt cfg (f\<lparr>limit := a\<rparr>) = buildSearchUrl_object rt cfg f"
    unfolding buildSearchUrl_object_def Let_def
    by (simp cong: sum.case_cong option.case_cong if_cong)
  then show ?thesis by (simp add: buildSearchUrl_def)
qed

lemma performSearch_limit:
  "performSearch rt cls cfg (f\<lparr>limit := a\<rparr>) signal = performSearch rt cls cfg (f\<lparr>limit := b\<rparr>) signal"
  unfolding performSearch_def buildSearchUrl_limit
  by (simp cong: sum.case_cong prod.case_cong if_cong)


lemma performSearch_first:
  assumes "buildSearchUrl rt cfg f = Inr searchUrl" "web rt (gotoLog s) searchUrl = Inr doc"
    "\<not> aborted signal s" "\<not> aborted signal (s\<lparr>gotoLog := gotoLog s @ [searchUrl]\<rparr>)"
  shows "performSearch rt cls cfg f signal s =
     (Returned (extractPaginationInfo doc (if truthyNum (page f) then numOf (page f) else 1)
        (fst (extractListings rt cls cfg doc (s\<lparr>gotoLog := gotoLog s @ [searchUrl]\<rparr>)))),
      snd (extractListings rt cls cfg doc (s\<lparr>gotoLog := gotoLog s @ [searchUrl]\<rparr>)))"
  using assms
  by (simp add: performSearch_def withPage_def bind_def goto_def split: prod.splits)



lemma sample_base: "baseUrl (getDomainConfig rt olx_pt) = ascii ''https://www.olx.pt''"
  "cfg_domain (getDomainConfig rt olx_pt) = olx_pt"
  by (simp_all add: getDomainConfig_def OLX_DOMAIN_CONFIGS_def)

lemma sample_runtime_fields:
  "newURL (sampleRuntime site) ref base =
     (if simpleRef ref then Inr \<lparr>beforeQuery = base @ ref, searchParams = [], hash = []\<rparr>
      else Inl (Error (ascii ''Invalid URL'')))"
  "urlToString (sampleRuntime site) \<lparr>beforeQuery = b, searchParams = [], hash = []\<rparr> = b"
  "web (sampleRuntime site) = site"
  "clock (sampleRuntime site) n = 1700000000000 + n"
  by (simp_all add: sampleRuntime_def)

lemma sample_refs:
  "simpleRef (ascii ''/d/anuncio/iphone-13-IDabc12.html'')"
  "simpleRef (ascii ''/d/anuncio/galaxy-s21-IDxyz9.html'')"
  "\<not> simpleRef (ascii ''http://'')"
  by (simp_all add: simpleRef_def ascii_def isAlnum_def isUpper_def isLower_def isDigit_def)

lemma sample_accepted:
  "filter (accepted (sampleRuntime site) (getDomainConfig (sampleRuntime site) olx_pt)) (cards samplePage) =
     cards samplePage"
  "length (cards samplePage) = 2"
proof -
  have t: "textOf (Some (ascii '' iPhone 13 '')) = ascii ''iPhone 13''"
    "textOf (Some (ascii ''Galaxy S21'')) = ascii ''Galaxy S21''"
    by (simp_all add: textOf_def trim_def ascii_def isSpace_def)
  have ne: "ascii ''iPhone 13'' \<noteq> []" "ascii ''Galaxy S21'' \<noteq> []"
    "ascii ''/d/anuncio/iphone-13-IDabc12.html'' \<noteq> []"
    "ascii ''/d/anuncio/galaxy-s21-IDxyz9.html'' \<noteq> []"
    by (simp_all add: ascii_def)
  show "filter (accepted (sampleRuntime site) (getDomainConfig (sampleRuntime site) olx_pt)) (cards samplePage) =
     cards samplePage"
    by (simp add: samplePage_def noPage_def accepted_def linkOf_def absoluteUrl_def
        sample_runtime_fields sample_refs t ne)
  show "length (cards samplePage) = 2" by (simp add: samplePage_def noPage_def)
qed

text \<open>
  Claim C9, as amended. The validated \<open>limit\<close> is never consulted: the implementation of
  \<open>searchListings\<close> and \<open>scrape\<close> do the same whatever it is. The listings a search
  returns are, in page order and whatever their number, those of the result cards with
  a non-blank title and a non-empty link that \<open>new URL\<close> resolves against the base URL
  (up to their ids, which may come from the clock); when the page loads at the first
  attempt, \<open>scrape\<close> succeeds with exactly these.
\<close>

theorem search_ignores_limit:
  "SearchListingsTool_executeImpl rt (args\<lparr>arg_limit := n\<rparr>) signal s =
     SearchListingsTool_executeImpl rt (args\<lparr>arg_limit := m\<rparr>) signal s \<and>
   scrape rt cls cfg (filters\<lparr>limit := a\<rparr>) signal s = scrape rt cls cfg (filters\<lparr>limit := b\<rparr>) signal s \<and>
   map (\<lambda>l. l\<lparr>l_id := []\<rparr>) (fst (extractListings rt cls cfg doc s)) =
     map (listingOfCard rt cfg []) (filter (accepted rt cfg) (cards doc)) \<and>
   (buildSearchUrl rt cfg filters = Inr searchUrl \<and> web rt (gotoLog s) searchUrl = Inr doc \<and>
      \<not> aborted signal s \<and> \<not> aborted signal (s\<lparr>gotoLog := gotoLog s @ [searchUrl]\<rparr>) \<longrightarrow>
      (\<exists>res s'. scrape rt cls cfg filters signal s = (Returned (Success res), s') \<and>
         map (\<lambda>l. l\<lparr>l_id := []\<rparr>) (listings res) =
           map (listingOfCard rt cfg []) (filter (accepted rt cfg) (cards doc))))"
proof -
  have sl: "scrape rt cls cfg (f\<lparr>limit := a\<rparr>) signal = scrape rt cls cfg (f\<lparr>limit := b\<rparr>) signal" for f cls cfg a b
    unfolding scrape_def by (simp only: performSearch_limit [where a = a and b = b])
  have fl: "filtersOf (args\<lparr>arg_limit := n\<rparr>) = (filtersOf args)\<lparr>limit := Some n\<rparr>" for n
    by (simp add: filtersOf_def)
  have c1: "SearchListingsTool_executeImpl rt (args\<lparr>arg_limit := n\<rparr>) signal s =
     SearchListingsTool_executeImpl rt (args\<lparr>arg_limit := m\<rparr>) signal s"
    unfolding SearchListingsTool_executeImpl_def fl
    using sl [where cls = "createScraper (arg_domain args)" and cfg = "getDomainConfig rt (arg_domain args)"
        and f = "filtersOf args" and a = "Some n" and b = "Some m"]
    by simp
  have c2: "scrape rt cls cfg (filters\<lparr>limit := a\<rparr>) signal s = scrape rt cls cfg (filters\<lparr>limit := b\<rparr>) signal s"
    using sl [where cls = cls and cfg = cfg and f = filters and a = a and b = b] by simp
  have c3: "map (\<lambda>l. l\<lparr>l_id := []\<rparr>) (fst (extractListings rt cls cfg doc s)) =
     map (listingOfCard rt cfg []) (filter (accepted rt cfg) (cards doc))" for s
    unfolding extractListings_def using extractListingsLoop_shape [of rt cls cfg "cards doc" "[]" s]
    by simp
  have c4: "\<exists>res s'. scrape rt cls cfg filters signal s = (Returned (Success res), s') \<and>
         map (\<lambda>l. l\<lparr>l_id := []\<rparr>) (listings res) =
           map (listingOfCard rt cfg []) (filter (accepted rt cfg) (cards doc))"
    if h: "buildSearchUrl rt cfg filters = Inr searchUrl" "web rt (gotoLog s) searchUrl = Inr doc"
      "\<not> aborted signal s" "\<not> aborted signal (s\<lparr>gotoLog := gotoLog s @ [searchUrl]\<rparr>)"
  proof -
    note p = performSearch_first [OF h, of cls]
    show ?thesis
      unfolding scrape_unfold retryOperation_def
      by (subst retryLoop.simps) (simp add: p c3)
  qed
  show ?thesis using c1 c2 c3 c4 by blast
qed


lemma sample_search_url:
  "buildSearchUrl (sampleRuntime site) (getDomainConfig (sampleRuntime site) olx_pt)
     \<lparr>domain = olx_pt, query = Some (ascii ''phone''), category = None, location = None,
      minPrice = None, maxPrice = None, page = Some 1, limit = lim, sortBy = Some relevance\<rparr> =
   Inr (ascii ''https://www.olx.pt/ads/q-phone/'')"
proof -
  have nu: "newURL (sampleRuntime site) (ascii ''/ads/q-phone/'') (ascii ''https://www.olx.pt'') =
      Inr \<lparr>beforeQuery = ascii ''https://www.olx.pt/ads/q-phone/'', searchParams = [], hash = []\<rparr>"
    using sample_ref by (simp add: sample_runtime_fields ascii_def)
  show ?thesis
    unfolding buildSearchUrl_def buildSearchUrl_object_def
    using sample_path [of site] nu
    by (simp add: sample_base Let_def truthyStr_def truthyNum_def numOf_def sample_runtime_fields)
qed

theorem search_ignores_limit_witness:
  "\<exists>res s'. scrape (sampleRuntime sampleSite) OLXPTScraper (getDomainConfig (sampleRuntime sampleSite) olx_pt)
       \<lparr>domain = olx_pt, query = Some (ascii ''phone''), category = None, location = None,
        minPrice = None, maxPrice = None, page = Some 1, limit = Some 1, sortBy = Some relevance\<rparr>
       None initialWorld = (Returned (Success res), s') \<and>
     length (listings res) = 2"
proof -
  define rt where "rt = sampleRuntime sampleSite"
  define f where "f = \<lparr>domain = olx_pt, query = Some (ascii ''phone''), category = None, location = None,
        minPrice = None, maxPrice = None, page = Some 1, limit = Some 1, sortBy = Some relevance\<rparr>"
  have u: "buildSearchUrl rt (getDomainConfig rt olx_pt) f = Inr (ascii ''https://www.olx.pt/ads/q-phone/'')"
    unfolding rt_def f_def by (rule sample_search_url)
  have w: "web rt (gotoLog initialWorld) (ascii ''https://www.olx.pt/ads/q-phone/'') = Inr samplePage"
    by (simp add: rt_def sample_runtime_fields sampleSite_def)
  have a: "\<not> aborted None initialWorld"
    "\<not> aborted None (initialWorld\<lparr>gotoLog := gotoLog initialWorld @ [ascii ''https://www.olx.pt/ads/q-phone/'']\<rparr>)"
    by (simp_all add: aborted_def)
  from search_ignores_limit
         [where rt = rt and cls = OLXPTScraper and cfg = "getDomainConfig rt olx_pt" and filters = f
            and signal = None and s = initialWorld and doc = samplePage
            and searchUrl = "ascii ''https://www.olx.pt/ads/q-phone/''", THEN conjunct2, THEN conjunct2,
          THEN conjunct2] u w a
  obtain res s' where r: "scrape rt OLXPTScraper (getDomainConfig rt olx_pt) f None initialWorld =
        (Returned (Success res), s')"
    and m: "map (\<lambda>l. l\<lparr>l_id := []\<rparr>) (listings res) =
           map (listingOfCard rt (getDomainConfig rt olx_pt) [])
             (filter (accepted rt (getDomainConfig rt olx_pt)) (cards samplePage))"
    by blast
  have "length (listings res) = length (map (\<lambda>l. l\<lparr>l_id := []\<rparr>) (listings res))" by simp
  also have "\<dots> = 2" unfolding m rt_def by (simp add: sample_accepted)
  finally have "length (listings res) = 2" .
  with r show ?thesis unfolding rt_def f_def by blast
qed

text \<open>
  Claim C9 as stated fails in "one Listing for every result card that has both a title
  and a link": a card with the title \<open>Bike\<close> whose link is \<open>http://\<close>, which \<open>new URL\<close>
  rejects for want of a host, is skipped by the \<open>catch\<close> of the loop.
\<close>

theorem unresolvable_link_card_dropped_counterexample:
  "textOf (card_title \<lparr>card_title = Some (ascii ''Bike''), card_price = None, card_location = None,
       card_image = None, card_links = [ascii ''http://'']\<rparr>) = ascii ''Bike'' \<and>
   linkOf (card_links \<lparr>card_title = Some (ascii ''Bike''), card_price = None, card_location = None,
       card_image = None, card_links = [ascii ''http://'']\<rparr>) = ascii ''http://'' \<and>
   fst (extractListings (sampleRuntime sampleSite) OLXPTScraper
          (getDomainConfig (sampleRuntime sampleSite) olx_pt)
          (noPage\<lparr>cards := [\<lparr>card_title = Some (ascii ''Bike''), card_price = None,
             card_location = None, card_image = None, card_links = [ascii ''http://'']\<rparr>]\<rparr>)
          initialWorld) = []"
proof -
  have t: "textOf (Some (ascii ''Bike'')) = ascii ''Bike''"
    by (simp add: textOf_def trim_def ascii_def isSpace_def)
  have ne: "ascii ''Bike'' \<noteq> []" "ascii ''http://'' \<noteq> []" by (simp_all add: ascii_def)
  show ?thesis
    by (simp add: extractListings_def noPage_def linkOf_def absoluteUrl_def t ne
        sample_runtime_fields sample_refs)
qed

subsection \<open>Detail pages\<close>

lemma perform_miss_success:
  assumes "\<not> truthyStr (urlCache s (cfg_domain cfg) i)" "\<not> aborted signal s"
    and "findListingUrl rt cls cfg i s = (Returned r, s1)" "r \<noteq> []"
    and "web rt (gotoLog s1) r = Inr doc" "\<not> aborted signal (s1\<lparr>gotoLog := gotoLog s1 @ [r]\<rparr>)"
  shows "performGetListingDetails rt cls cfg i signal s =
     (Returned \<lparr>l_id = i, l_title = textOf (detail_title doc),
                 l_price = orUndefined (textOf (detail_price doc)),
                 l_location = orUndefined (textOf (detail_location doc)),
                 l_imageUrl = None, l_url = r,
                 l_description = orUndefined (textOf (detail_description doc)),
                 l_seller = extractSellerInfo doc\<rparr>,
      s1\<lparr>gotoLog := gotoLog s1 @ [r]\<rparr>)"
  using assms
  by (simp add: performGetListingDetails_def withPage_def bind_def ret_def throw_def goto_def Let_def)

text \<open>
  Claim C10. On a detail page no field is required. Once the URL is resolved (from the
  cache, or by \<open>findListingUrl\<close>), the page loads and the token is not signalled,
  \<open>getListingDetails\<close> returns a success whatever the page shows: each of title, price,
  description and location is the trimmed text of its element, and a selector that
  matches nothing gives the empty string for the title and \<open>undefined\<close> for the others;
  the seller is \<open>undefined\<close> when there is neither a name nor a verified badge.
\<close>

theorem getListingDetails_missing_fields_default:
  "(urlCache s (cfg_domain cfg) i = Some u \<and> u \<noteq> [] \<and> \<not> aborted signal s \<and>
      \<not> aborted signal (s\<lparr>gotoLog := gotoLog s @ [u]\<rparr>) \<and> web rt (gotoLog s) u = Inr doc \<longrightarrow>
      getListingDetails rt cls cfg i signal s =
        (Returned (Success \<lparr>l_id = i, l_title = textOf (detail_title doc),
                 l_price = orUndefined (textOf (detail_price doc)),
                 l_location = orUndefined (textOf (detail_location doc)),
                 l_imageUrl = None, l_url = u,
                 l_description = orUndefined (textOf (detail_description doc)),
                 l_seller = extractSellerInfo doc\<rparr>),
         s\<lparr>gotoLog := gotoLog s @ [u]\<rparr>)) \<and>
   (\<not> truthyStr (urlCache s (cfg_domain cfg) i) \<and> \<not> aborted signal s \<and>
      findListingUrl rt cls cfg i s = (Returned r, s1) \<and> r \<noteq> [] \<and>
      web rt (gotoLog s1) r = Inr doc \<and> \<not> aborted signal (s1\<lparr>gotoLog := gotoLog s1 @ [r]\<rparr>) \<longrightarrow>
      getListingDetails rt cls cfg i signal s =
        (Returned (Success \<lparr>l_id = i, l_title = textOf (detail_title doc),
                 l_price = orUndefined (textOf (detail_price doc)),
                 l_location = orUndefined (textOf (detail_location doc)),
                 l_imageUrl = None, l_url = r,
                 l_description = orUndefined (textOf (detail_description doc)),
                 l_seller = extractSellerInfo doc\<rparr>),
         s1\<lparr>gotoLog := gotoLog s1 @ [r]\<rparr>)) \<and>
   textOf None = [] \<and> orUndefined (textOf None) = None \<and>
   (seller_name_text doc = None \<and> \<not> seller_verified_present doc \<longrightarrow> extractSellerInfo doc = None)"
proof -
  have a: "getListingDetails rt cls cfg i signal s =
        (Returned (Success \<lparr>l_id = i, l_title = textOf (detail_title doc),
                 l_price = orUndefined (textOf (detail_price doc)),
                 l_location = orUndefined (textOf (detail_location doc)),
                 l_imageUrl = None, l_url = u,
                 l_description = orUndefined (textOf (detail_description doc)),
                 l_seller = extractSellerInfo doc\<rparr>),
         s\<lparr>gotoLog := gotoLog s @ [u]\<rparr>)"
    if "urlCache s (cfg_domain cfg) i = Some u \<and> u \<noteq> [] \<and> \<not> aborted signal s \<and>
      \<not> aborted signal (s\<lparr>gotoLog := gotoLog s @ [u]\<rparr>) \<and> web rt (gotoLog s) u = Inr doc"
    using that getListingDetails_hit_success [of s cfg i u signal rt doc cls] by blast
  have b: "getListingDetails rt cls cfg i signal s =
        (Returned (Success \<lparr>l_id = i, l_title = textOf (detail_title doc),
                 l_price = orUndefined (textOf (detail_price doc)),
                 l_location = orUndefined (textOf (detail_location doc)),
                 l_imageUrl = None, l_url = r,
                 l_description = orUndefined (textOf (detail_description doc)),
                 l_seller = extractSellerInfo doc\<rparr>),
         s1\<lparr>gotoLog := gotoLog s1 @ [r]\<rparr>)"
    if h: "\<not> truthyStr (urlCache s (cfg_domain cfg) i) \<and> \<not> aborted signal s \<and>
      findListingUrl rt cls cfg i s = (Returned r, s1) \<and> r \<noteq> [] \<and>
      web rt (gotoLog s1) r = Inr doc \<and> \<not> aborted signal (s1\<lparr>gotoLog := gotoLog s1 @ [r]\<rparr>)"
  proof -
    have p: "performGetListingDetails rt cls cfg i signal s =
     (Returned \<lparr>l_id = i, l_title = textOf (detail_title doc),
                 l_price = orUndefined (textOf (detail_price doc)),
                 l_location = orUndefined (textOf (detail_location doc)),
                 l_imageUrl = None, l_url = r,
                 l_description = orUndefined (textOf (detail_description doc)),
                 l_seller = extractSellerInfo doc\<rparr>,
      s1\<lparr>gotoLog := gotoLog s1 @ [r]\<rparr>)"
      using h perform_miss_success [of s cfg i signal rt cls r s1 doc] by blast
    show ?thesis
      unfolding getListingDetails_unfold retryOperation_def
      by (subst retryLoop.simps) (simp add: p)
  qed
  have c: "textOf None = []" "orUndefined (textOf None) = None"
    by (simp_all add: textOf_def orUndefined_def)
  have d: "seller_name_text doc = None \<and> \<not> seller_verified_present doc \<longrightarrow> extractSellerInfo doc = None"
    by (auto simp: extractSellerInfo_def Let_def textOf_def orUndefined_def)
  show ?thesis using a b c d by blast
qed

theorem getListingDetails_missing_fields_witness:
  "getListingDetails (sampleRuntime sampleSite) OLXPTScraper (getDomainConfig (sampleRuntime sampleSite) olx_pt)
     (ascii ''abc12'') None
     (initialWorld\<lparr>urlCache := (\<lambda>d. [ascii ''abc12'' \<mapsto>
        ascii ''https://www.olx.pt/d/anuncio/iphone-13-IDabc12.html''])\<rparr>) =
   (Returned (Success \<lparr>l_id = ascii ''abc12'', l_title = [], l_price = None, l_location = None,
       l_imageUrl = None, l_url = ascii ''https://www.olx.pt/d/anuncio/iphone-13-IDabc12.html'',
       l_description = None, l_seller = None\<rparr>),
    initialWorld\<lparr>urlCache := (\<lambda>d. [ascii ''abc12'' \<mapsto>
        ascii ''https://www.olx.pt/d/anuncio/iphone-13-IDabc12.html'']),
      gotoLog := [ascii ''https://www.olx.pt/d/anuncio/iphone-13-IDabc12.html'']\<rparr>)"
proof -
  define rt where "rt = sampleRuntime sampleSite"
  define u where "u = ascii ''https://www.olx.pt/d/anuncio/iphone-13-IDabc12.html''"
  define s where "s = initialWorld\<lparr>urlCache := (\<lambda>d. [ascii ''abc12'' \<mapsto> u])\<rparr>"
  have h: "urlCache s (cfg_domain (getDomainConfig rt olx_pt)) (ascii ''abc12'') = Some u \<and> u \<noteq> [] \<and>
      \<not> aborted None s \<and> \<not> aborted None (s\<lparr>gotoLog := gotoLog s @ [u]\<rparr>) \<and>
      web rt (gotoLog s) u = Inr noPage"
    by (simp add: s_def u_def rt_def aborted_def sample_runtime_fields sampleSite_def ascii_def)
  have e: "extractSellerInfo noPage = None" "detail_title noPage = None" "detail_price noPage = None"
    "detail_location noPage = None" "detail_description noPage = None"
    by (simp_all add: noPage_def extractSellerInfo_def textOf_def orUndefined_def)
  have t: "textOf None = []" "orUndefined [] = None" by (simp_all add: textOf_def orUndefined_def)
  from getListingDetails_missing_fields_default
         [where s = s and cfg = "getDomainConfig rt olx_pt" and i = "ascii ''abc12''" and u = u
            and signal = None and rt = rt and doc = noPage and cls = OLXPTScraper, THEN conjunct1] h
  have "getListingDetails rt OLXPTScraper (getDomainConfig rt olx_pt) (ascii ''abc12'') None s =
      (Returned (Success \<lparr>l_id = ascii ''abc12'', l_title = [], l_price = None, l_location = None,
         l_imageUrl = None, l_url = u, l_description = None, l_seller = None\<rparr>),
       s\<lparr>gotoLog := gotoLog s @ [u]\<rparr>)"
    by (simp add: e t)
  then show ?thesis
    unfolding rt_def s_def u_def by (simp add: initialWorld_def)
qed

subsection \<open>Resolution of the listing URL\<close>







subsection \<open>The search URL of the repository's own test\<close>

text \<open>
  The test "should build correct search URLs" of \<open>olx-pt.scraper.test.ts\<close> expects the URL
  for these filters to contain \<open>/lisboa/q-test-query/\<close>, \<open>c=electronics\<close>,
  \<open>search%5Bfilter_float_price%3Afrom%5D=50\<close>, \<open>search%5Bfilter_float_price%3Ato%5D=500\<close>,
  \<open>search%5Border%5D=filter_float_price%3Aasc\<close> and \<open>page=2\<close>. The model computes it.
\<close>

lemma buildSearchUrl_repository_test:
  "buildSearchUrl (sampleRuntime site) (getDomainConfig (sampleRuntime site) olx_pt)
     \<lparr>domain = olx_pt, query = Some (ascii ''test query''), category = Some (ascii ''electronics''),
      location = Some (ascii ''lisboa''), minPrice = Some 50, maxPrice = Some 500, page = Some 2,
      limit = None, sortBy = Some price_asc\<rparr> =
   Inr (ascii ''https://www.olx.pt/lisboa/q-test-query/?c=electronics&search%5Bfilter_float_price%3Afrom%5D=50&search%5Bfilter_float_price%3Ato%5D=500&search%5Border%5D=filter_float_price%3Aasc&page=2'')"
proof -
  have p: "searchPath (urlPatterns (getDomainConfig (sampleRuntime site) olx_pt))
      (Some (ascii ''lisboa'')) (Some (ascii ''test query'')) = ascii ''/lisboa/q-test-query/''"
    by (simp add: sampleRuntime_def getDomainConfig_def OLX_DOMAIN_CONFIGS_def
      olxUrlPatterns_def searchPath_pt_def truthyStr_def strOf_def Let_def ascii_def
      stripOther_def trimHyphen_def isUpper_def isLower_def isDigit_def isSpace_def)
  have r: "simpleRef (ascii ''/lisboa/q-test-query/'')"
    by (simp add: simpleRef_def ascii_def isAlnum_def isUpper_def isLower_def isDigit_def)
  have n: "numToString 50 = ascii ''50''" "numToString 500 = ascii ''500''" "numToString 2 = ascii ''2''"
    by (simp_all add: numToString_def decimal.simps ascii_def)
  have obj: "buildSearchUrl_object (sampleRuntime site) (getDomainConfig (sampleRuntime site) olx_pt)
     \<lparr>domain = olx_pt, query = Some (ascii ''test query''), category = Some (ascii ''electronics''),
      location = Some (ascii ''lisboa''), minPrice = Some 50, maxPrice = Some 500, page = Some 2,
      limit = None, sortBy = Some price_asc\<rparr> =
    Inr \<lparr>beforeQuery = ascii ''https://www.olx.pt/lisboa/q-test-query/'',
         searchParams = [(ascii ''c'', ascii ''electronics''),
           (ascii ''search[filter_float_price:from]'', ascii ''50''),
           (ascii ''search[filter_float_price:to]'', ascii ''500''),
           (ascii ''search[order]'', ascii ''filter_float_price:asc''),
           (ascii ''page'', ascii ''2'')], hash = []\<rparr>"
    unfolding buildSearchUrl_object_def
    by (simp add: sample_runtime_fields sample_base olx_param_names olxSortParams_def Let_def
        truthyStr_def truthyNum_def numOf_def strOf_def n p r)
       (simp add: searchParams_set_def ascii_def)
  show ?thesis
    unfolding buildSearchUrl_def obj
    by (simp add: sampleRuntime_def join_def formEncode_def utf8_def encodeByte_def hexDigit_def
        ascii_def isAlnum_def isUpper_def isLower_def isDigit_def)
qed

end
